theory Spec2Isabelle
  imports Complex_Main
begin

section \<open>JavaScript values used by the client\<close>

text \<open>
  A JavaScript string whose content the code looks at or hands on as data: the list of
  its UTF-16 code units. \<open>js\<close> writes an ASCII literal that way. Messages shown to the
  user, identifiers, URLs and timestamps, which the code only passes on, stay of type
  \<open>string\<close>.
\<close>

type_synonym js_string = "nat list"

definition js :: "string \<Rightarrow> js_string" where
  "js s = map of_char s"

text \<open>
  A parsed JSON document, as \<^verbatim>\<open>response.json()\<close> resolves to and as
  \<^verbatim>\<open>JSON.stringify\<close> receives. An object is kept as the list of its members
  in document order; \<^verbatim>\<open>JSON.parse\<close> lets the last of several equal keys win.
  The numbers of a document are IEEE doubles; their type \<open>'n\<close> is left open, and the
  two things the code does with such a number, testing it for zero and printing it
  (\<^verbatim>\<open>Number::toString\<close>), are arguments of the functions that need them.
\<close>

datatype 'n json =
    JNull
  | JBool bool
  | JNum 'n
  | JStr js_string
  | JArr "'n json list"
  | JObj "(js_string \<times> 'n json) list"

text \<open>
  The truthiness of a parsed JSON value (the left operand of \<^verbatim>\<open>||\<close>). \<open>zero n\<close>
  says that the number \<open>n\<close> is \<^verbatim>\<open>0\<close> or \<^verbatim>\<open>-0\<close>; a parsed document holds no
  \<^verbatim>\<open>NaN\<close>.
\<close>

fun truthy :: "('n \<Rightarrow> bool) \<Rightarrow> 'n json \<Rightarrow> bool" where
  "truthy zero JNull = False"
| "truthy zero (JBool b) = b"
| "truthy zero (JNum n) = (\<not> zero n)"
| "truthy zero (JStr s) = (s \<noteq> [])"
| "truthy zero (JArr xs) = True"
| "truthy zero (JObj kvs) = True"

text \<open>\<^verbatim>\<open>Array.prototype.join\<close> with its default separator, the comma.\<close>

fun join_comma :: "js_string list \<Rightarrow> js_string" where
  "join_comma [] = []"
| "join_comma [s] = s"
| "join_comma (s # t # ts) = s @ js '','' @ join_comma (t # ts)"

text \<open>
  \<^verbatim>\<open>ToString\<close> of a parsed JSON value; \<open>None\<close> when the conversion throws a
  \<^verbatim>\<open>TypeError\<close>. A string is itself, a number is printed by \<open>num_text\<close>
  (\<^verbatim>\<open>Number::toString\<close>). An array is converted by \<^verbatim>\<open>Array.prototype.toString\<close>,
  which joins the conversions of its elements, \<^verbatim>\<open>null\<close> counting as the empty
  string. An object is converted by the first callable of its \<^verbatim>\<open>toString\<close> and
  \<^verbatim>\<open>valueOf\<close> that returns a primitive: without a member \<^verbatim>\<open>toString\<close> of its
  own that is \<^verbatim>\<open>Object.prototype.toString\<close>, which gives
  \<^verbatim>\<open>[object Object]\<close>; a member \<^verbatim>\<open>toString\<close> of its own is a JSON value and
  not callable, and \<^verbatim>\<open>valueOf\<close> is then either a member that is not callable or
  \<^verbatim>\<open>Object.prototype.valueOf\<close>, which returns the object: the conversion throws.
\<close>

fun to_string :: "('n \<Rightarrow> string) \<Rightarrow> 'n json \<Rightarrow> js_string option"
  and element_strings :: "('n \<Rightarrow> string) \<Rightarrow> 'n json list \<Rightarrow> js_string list option" where
  "to_string num_text JNull = Some (js ''null'')"
| "to_string num_text (JBool b) = Some (if b then js ''true'' else js ''false'')"
| "to_string num_text (JNum n) = Some (js (num_text n))"
| "to_string num_text (JStr s) = Some s"
| "to_string num_text (JArr xs) = map_option join_comma (element_strings num_text xs)"
| "to_string num_text (JObj kvs) =
     (if List.member (map fst kvs) (js ''toString'') then None
      else Some (js ''[object Object]''))"
| "element_strings num_text [] = Some []"
| "element_strings num_text (JNull # xs) = map_option ((#) []) (element_strings num_text xs)"
| "element_strings num_text (x # xs) =
     (case to_string num_text x of
        None \<Rightarrow> None
      | Some s \<Rightarrow> map_option ((#) s) (element_strings num_text xs))"

text \<open>
  What a rejected promise hands to \<^verbatim>\<open>catch\<close>, as far as the handlers look at
  it: \<^verbatim>\<open>err instanceof Error ? err.message : fallback\<close>. \<open>Rejected (Some m)\<close> is
  an \<^verbatim>\<open>Error\<close> with message \<open>m\<close>, \<open>Rejected None\<close> any other thrown value.
\<close>

datatype outcome = Resolved | Rejected "string option"

fun message_or :: "string option \<Rightarrow> string \<Rightarrow> string" where
  "message_or (Some m) fallback = m"
| "message_or None fallback = fallback"

text \<open>
  Decimal digits. \<^verbatim>\<open>Number::toString\<close> prints an integer whose magnitude is below
  \<open>10\<^sup>2\<^sup>1\<close> this way; the evaluations below print small integers with it.
\<close>

fun show_nat :: "nat \<Rightarrow> string" where
  "show_nat n =
     (if n < 10 then [''0123456789'' ! n]
      else show_nat (n div 10) @ [''0123456789'' ! (n mod 10)])"

definition show_int :: "int \<Rightarrow> string" where
  "show_int i = (if i < 0 then CHR ''-'' # show_nat (nat (- i)) else show_nat (nat i))"

text \<open>The zero test of an integer, for the same evaluations.\<close>

definition is_zero :: "int \<Rightarrow> bool" where
  "is_zero i = (i = 0)"


section \<open>The API client: handleResponse (lib/api.ts)\<close>

text \<open>
  The part of a fetch \<^verbatim>\<open>Response\<close> that \<^verbatim>\<open>handleResponse\<close> reads.
  \<open>json_result\<close> is what \<^verbatim>\<open>response.json()\<close> settles to: \<open>None\<close> when the
  promise rejects because the body is not parseable as JSON.
\<close>

record 'n response =
  ok :: bool
  status :: nat
  json_result :: "'n json option"

text \<open>
  The values \<^verbatim>\<open>handleResponse\<close> can throw: an \<^verbatim>\<open>ApiError\<close> with its status
  and its message; \<open>SyntaxError\<close>, the rejection of \<^verbatim>\<open>response.json()\<close>; and
  \<open>TypeError\<close>, thrown by a property read on \<^verbatim>\<open>null\<close> and by a string
  conversion that fails.
\<close>

datatype thrown = ApiError nat js_string | SyntaxError | TypeError

text \<open>
  \<^verbatim>\<open>errorData.error\<close>: reading the property \<^verbatim>\<open>error\<close> of a parsed JSON value.
  Reading a property of \<^verbatim>\<open>null\<close> throws; booleans, numbers, strings and arrays
  have no such property (\<^verbatim>\<open>undefined\<close>, here \<open>None\<close>).
\<close>

fun error_property :: "'n json \<Rightarrow> thrown + 'n json option" where
  "error_property JNull = Inl TypeError"
| "error_property (JObj kvs) = Inr (map_of (rev kvs) (js ''error''))"
| "error_property (JBool b) = Inr None"
| "error_property (JNum n) = Inr None"
| "error_property (JStr s) = Inr None"
| "error_property (JArr xs) = Inr None"

text \<open>\<^verbatim>\<open>errorData.error || 'Request failed'\<close>\<close>

fun or_request_failed :: "('n \<Rightarrow> bool) \<Rightarrow> 'n json option \<Rightarrow> 'n json" where
  "or_request_failed zero None = JStr (js ''Request failed'')"
| "or_request_failed zero (Some v) = (if truthy zero v then v else JStr (js ''Request failed''))"

text \<open>
  \<^verbatim>\<open>
  class ApiError extends Error {
    constructor(public status: number, message: string) {
      super(message);
      this.name = 'ApiError';
    }
  }
  \<close>
  \<^verbatim>\<open>new ApiError(status, message)\<close>: the constructor of \<^verbatim>\<open>Error\<close> converts the
  message with \<^verbatim>\<open>ToString\<close>; when that throws, no \<^verbatim>\<open>ApiError\<close> comes to be.
\<close>

definition new_ApiError :: "('n \<Rightarrow> string) \<Rightarrow> nat \<Rightarrow> 'n json \<Rightarrow> thrown" where
  "new_ApiError num_text st message =
     (case to_string num_text message of
        None \<Rightarrow> TypeError
      | Some m \<Rightarrow> ApiError st m)"

text \<open>
  \<^verbatim>\<open>
  const handleResponse = async (response: Response) => {
    if (!response.ok) {
      const errorData = await response.json().catch(() => ({ error: 'Unknown error' }));
      throw new ApiError(response.status, errorData.error || 'Request failed');
    }
    return response.json();
  };
  \<close>
\<close>

definition handleResponse ::
    "('n \<Rightarrow> bool) \<Rightarrow> ('n \<Rightarrow> string) \<Rightarrow> 'n response \<Rightarrow> thrown + 'n json" where
  "handleResponse zero num_text r =
     (if \<not> ok r then
        (let errorData =
               (case json_result r of
                  None \<Rightarrow> JObj [(js ''error'', JStr (js ''Unknown error''))]
                | Some d \<Rightarrow> d)
         in case error_property errorData of
              Inl t \<Rightarrow> Inl t
            | Inr e \<Rightarrow> Inl (new_ApiError num_text (status r) (or_request_failed zero e)))
      else
        (case json_result r of
           None \<Rightarrow> Inl SyntaxError
         | Some d \<Rightarrow> Inr d))"


section \<open>EditStepModal.handleSubmit (components/EditStepModal.tsx)\<close>

text \<open>
  \<^verbatim>\<open>String.prototype.trim\<close> strips white space and line terminators from both
  ends: tab, line feed, vertical tab, form feed, carriage return, space, no-break
  space, the other space separators of Unicode, line and paragraph separator, and the
  byte order mark.
\<close>

definition is_space :: "nat \<Rightarrow> bool" where
  "is_space u =
     (u \<in> set [0x0009, 0x000A, 0x000B, 0x000C, 0x000D, 0x0020, 0x00A0, 0x1680,
               0x2000, 0x2001, 0x2002, 0x2003, 0x2004, 0x2005, 0x2006, 0x2007,
               0x2008, 0x2009, 0x200A, 0x2028, 0x2029, 0x202F, 0x205F, 0x3000, 0xFEFF])"

definition trim :: "js_string \<Rightarrow> js_string" where
  "trim s = rev (dropWhile is_space (rev (dropWhile is_space s)))"

text \<open>
  The modal's \<^verbatim>\<open>formData\<close>. \<open>estimated_time_minutes\<close> is a finite number: it is
  set from \<^verbatim>\<open>parseInt(value) || 60\<close> or from \<^verbatim>\<open>step.estimated_time_minutes || 60\<close>,
  and both replace \<^verbatim>\<open>NaN\<close> by 60.
\<close>

record form_data =
  title :: js_string
  description :: js_string
  resource_url :: js_string
  resource_type :: js_string
  estimated_time_minutes :: rat
  tags :: "js_string list"
  brain_type_optimized :: bool

record modal_state =
  formData :: form_data
  newTag :: string
  loading :: bool
  error :: string

text \<open>
  What one run of \<^verbatim>\<open>handleSubmit\<close> leaves behind: the component's state, the
  arguments of the calls of the \<^verbatim>\<open>onSave\<close> prop, and whether the \<^verbatim>\<open>onClose\<close>
  prop was called (the parent closes the modal only then).
\<close>

record submit_result =
  state :: modal_state
  onSave_calls :: "form_data list"
  onClose_called :: bool

text \<open>
  \<^verbatim>\<open>
  const handleSubmit = async (e: React.FormEvent) => {
    e.preventDefault();
    setError('');
    if (!formData.title.trim()) { setError('Title is required'); return; }
    if (!formData.description.trim()) { setError('Description is required'); return; }
    if (!formData.resource_url.trim()) { setError('Resource URL is required'); return; }
    if (formData.estimated_time_minutes < 1) {
      setError('Estimated time must be at least 1 minute'); return;
    }
    setLoading(true);
    try { await onSave(formData); onClose(); }
    catch (err: unknown) {
      setError(err instanceof Error ? err.message : 'Failed to save step');
    } finally { setLoading(false); }
  };
  \<close>
  The first argument is how the promise returned by \<^verbatim>\<open>onSave\<close> settles.
\<close>

definition handleSubmit :: "outcome \<Rightarrow> modal_state \<Rightarrow> submit_result" where
  "handleSubmit save st =
     (let fd = formData st in
      if trim (title fd) = [] then
        \<lparr>state = st\<lparr>error := ''Title is required''\<rparr>,
         onSave_calls = [], onClose_called = False\<rparr>
      else if trim (description fd) = [] then
        \<lparr>state = st\<lparr>error := ''Description is required''\<rparr>,
         onSave_calls = [], onClose_called = False\<rparr>
      else if trim (resource_url fd) = [] then
        \<lparr>state = st\<lparr>error := ''Resource URL is required''\<rparr>,
         onSave_calls = [], onClose_called = False\<rparr>
      else if estimated_time_minutes fd < 1 then
        \<lparr>state = st\<lparr>error := ''Estimated time must be at least 1 minute''\<rparr>,
         onSave_calls = [], onClose_called = False\<rparr>
      else
        (case save of
           Resolved \<Rightarrow>
             \<lparr>state = st\<lparr>error := '''', loading := False\<rparr>,
              onSave_calls = [fd], onClose_called = True\<rparr>
         | Rejected m \<Rightarrow>
             \<lparr>state = st\<lparr>error := message_or m ''Failed to save step'', loading := False\<rparr>,
              onSave_calls = [fd], onClose_called = False\<rparr>))"

definition example_form :: form_data where
  "example_form =
     \<lparr>title = js ''Intro'', description = js ''Read chapter 1'',
      resource_url = js ''https://example.com'', resource_type = js ''article'',
      estimated_time_minutes = 60, tags = [], brain_type_optimized = True\<rparr>"

definition example_modal :: "form_data \<Rightarrow> modal_state" where
  "example_modal fd = \<lparr>formData = fd, newTag = '''', loading = False, error = ''''\<rparr>"


section \<open>The API client: mutation requests (lib/api.ts)\<close>

text \<open>
  What the client hands to \<^verbatim>\<open>fetch\<close>: \<open>http_method\<close> is the option
  \<^verbatim>\<open>method\<close>, \<open>body\<close> the value given to \<^verbatim>\<open>JSON.stringify\<close>, \<open>None\<close> when
  the call has no body.
\<close>

record 'n request =
  url :: string
  http_method :: string
  headers :: "(string \<times> string) list"
  body :: "'n json option"

definition API_BASE_URL :: string where
  "API_BASE_URL = ''http://localhost:5000''"

text \<open>
  \<^verbatim>\<open>getAuthHeaders\<close>: the argument is \<^verbatim>\<open>localStorage.getItem('neuronav_token')\<close>;
  \<^verbatim>\<open>null\<close> and the empty string are falsy.
\<close>

fun getAuthHeaders :: "string option \<Rightarrow> (string \<times> string) list" where
  "getAuthHeaders None = []"
| "getAuthHeaders (Some token) =
     (if token = [] then [] else [(''Authorization'', ''Bearer '' @ token)])"

text \<open>
  \<^verbatim>\<open>progressApi.updateStepProgress(roadmapId, stepNumber, completed)\<close>: POST to
  \<^verbatim>\<open>/roadmaps/${roadmapId}/progress\<close> with body
  \<^verbatim>\<open>{ step_number: stepNumber, completed }\<close>.
\<close>

definition updateStepProgress_request :: "string option \<Rightarrow> string \<Rightarrow> 'n \<Rightarrow> bool \<Rightarrow> 'n request" where
  "updateStepProgress_request token roadmapId stepNumber completed =
     \<lparr>url = API_BASE_URL @ ''/roadmaps/'' @ roadmapId @ ''/progress'',
      http_method = ''POST'',
      headers = (''Content-Type'', ''application/json'') # getAuthHeaders token,
      body = Some (JObj [(js ''step_number'', JNum stepNumber),
                         (js ''completed'', JBool completed)])\<rparr>"

text \<open>
  \<^verbatim>\<open>roadmapApi.addStep(roadmapId, stepData)\<close>: POST to
  \<^verbatim>\<open>/roadmaps/${roadmapId}/steps\<close> with body \<^verbatim>\<open>stepData\<close>, whatever members
  the object has that the caller passes.
\<close>

definition addStep_request ::
    "string option \<Rightarrow> string \<Rightarrow> (js_string \<times> 'n json) list \<Rightarrow> 'n request" where
  "addStep_request token roadmapId stepData =
     \<lparr>url = API_BASE_URL @ ''/roadmaps/'' @ roadmapId @ ''/steps'',
      http_method = ''POST'',
      headers = (''Content-Type'', ''application/json'') # getAuthHeaders token,
      body = Some (JObj stepData)\<rparr>"

text \<open>
  The object that the client passes as \<^verbatim>\<open>stepData\<close>: the \<^verbatim>\<open>formData\<close> of the
  modal, which \<^verbatim>\<open>EditStepModal.handleSubmit\<close> hands to \<^verbatim>\<open>onSave\<close> and
  \<^verbatim>\<open>RoadmapView.handleSaveStep\<close> to \<^verbatim>\<open>roadmapApi.addStep\<close> when no step is
  being edited. Its members are those of the object literal in \<^verbatim>\<open>useState\<close>.
\<close>

definition formData_object :: "form_data \<Rightarrow> (js_string \<times> rat json) list" where
  "formData_object fd =
     [(js ''title'', JStr (title fd)),
      (js ''description'', JStr (description fd)),
      (js ''resource_url'', JStr (resource_url fd)),
      (js ''resource_type'', JStr (resource_type fd)),
      (js ''estimated_time_minutes'', JNum (estimated_time_minutes fd)),
      (js ''tags'', JArr (map JStr (tags fd))),
      (js ''brain_type_optimized'', JBool (brain_type_optimized fd))]"

text \<open>
  \<^verbatim>\<open>roadmapApi.deleteStep(roadmapId, stepNumber)\<close>: DELETE of
  \<^verbatim>\<open>/roadmaps/${roadmapId}/steps/${stepNumber}\<close>, without a body. \<open>num_text\<close>
  is \<^verbatim>\<open>Number::toString\<close>, which the template literal applies to the number.
\<close>

definition deleteStep_request ::
    "('n \<Rightarrow> string) \<Rightarrow> string option \<Rightarrow> string \<Rightarrow> 'n \<Rightarrow> 'n request" where
  "deleteStep_request num_text token roadmapId stepNumber =
     \<lparr>url = API_BASE_URL @ ''/roadmaps/'' @ roadmapId @ ''/steps/'' @ num_text stepNumber,
      http_method = ''DELETE'',
      headers = getAuthHeaders token,
      body = None\<rparr>"

text \<open>
  \<^verbatim>\<open>roadmapApi.reorderSteps(roadmapId, stepOrder)\<close>: PUT to
  \<^verbatim>\<open>/roadmaps/${roadmapId}/steps/reorder\<close> with body \<^verbatim>\<open>{ step_order: stepOrder }\<close>.
\<close>

definition reorderSteps_request :: "string option \<Rightarrow> string \<Rightarrow> 'n list \<Rightarrow> 'n request" where
  "reorderSteps_request token roadmapId stepOrder =
     \<lparr>url = API_BASE_URL @ ''/roadmaps/'' @ roadmapId @ ''/steps/reorder'',
      http_method = ''PUT'',
      headers = (''Content-Type'', ''application/json'') # getAuthHeaders token,
      body = Some (JObj [(js ''step_order'', JArr (map JNum stepOrder))])\<rparr>"

text \<open>
  Whether a JSON value has, at any depth, an object member of the given name.
\<close>

fun mentions :: "js_string \<Rightarrow> 'n json \<Rightarrow> bool"
  and mentions_in_list :: "js_string \<Rightarrow> 'n json list \<Rightarrow> bool"
  and mentions_in_members :: "js_string \<Rightarrow> (js_string \<times> 'n json) list \<Rightarrow> bool" where
  "mentions k JNull = False"
| "mentions k (JBool b) = False"
| "mentions k (JNum n) = False"
| "mentions k (JStr s) = False"
| "mentions k (JArr xs) = mentions_in_list k xs"
| "mentions k (JObj kvs) = mentions_in_members k kvs"
| "mentions_in_list k [] = False"
| "mentions_in_list k (x # xs) = (mentions k x \<or> mentions_in_list k xs)"
| "mentions_in_members k [] = False"
| "mentions_in_members k ((name, v) # kvs) =
     (name = k \<or> mentions k v \<or> mentions_in_members k kvs)"


section \<open>RoadmapView.handleProgressToggle (pages/RoadmapView.tsx)\<close>

text \<open>
  A JavaScript number as far as the progress computation needs it: a finite double that
  is not negative, given by its exact value, \<^verbatim>\<open>Infinity\<close> or \<^verbatim>\<open>NaN\<close>.
\<close>

datatype jsnum = NaN | Infinity | Fin rat

text \<open>The number of binary digits of a natural number.\<close>

fun bit_length :: "nat \<Rightarrow> nat" where
  "bit_length n = (if n = 0 then 0 else Suc (bit_length (n div 2)))"

text \<open>
  The binary exponent of a positive rational \<open>q\<close>: the integer \<open>e\<close> with
  \<open>2\<^sup>e \<le> q < 2\<^sup>e\<^sup>+\<^sup>1\<close>.
\<close>

definition log2_floor :: "rat \<Rightarrow> int" where
  "log2_floor q =
     (if 1 \<le> q then int (bit_length (nat \<lfloor>q\<rfloor>)) - 1
      else - int (bit_length (nat (\<lceil>1 / q\<rceil> - 1))))"

text \<open>The nearest integer, a tie going to the even one.\<close>

definition round_even :: "rat \<Rightarrow> int" where
  "round_even x =
     (let f = \<lfloor>x\<rfloor>; d = x - of_int f
      in if d < 1 / 2 then f
         else if 1 / 2 < d then f + 1
         else if even f then f else f + 1)"

text \<open>
  The IEEE 754 double nearest to a rational that is not negative, as every arithmetic
  operation of JavaScript returns it for the exact result: 53 significant bits, a tie
  going to the even significand, the smallest exponent that of the subnormal numbers,
  and \<^verbatim>\<open>Infinity\<close> from \<open>2\<^sup>1\<^sup>0\<^sup>2\<^sup>4\<close> on.
\<close>

definition to_double :: "rat \<Rightarrow> jsnum" where
  "to_double q =
     (if q = 0 then Fin 0
      else
        (let e = max (log2_floor q - 52) (- 1074);
             r = rat_of_int (round_even (q / 2 powi e)) * 2 powi e
         in if 2 ^ 1024 \<le> r then Infinity else Fin r))"

text \<open>
  \<^verbatim>\<open>a / b\<close> for two array lengths (an array length is below \<open>2\<^sup>3\<^sup>2\<close> and so a
  double).
\<close>

definition js_div :: "nat \<Rightarrow> nat \<Rightarrow> jsnum" where
  "js_div a b =
     (if b = 0 then (if a = 0 then NaN else Infinity)
      else to_double (rat_of_nat a / rat_of_nat b))"

text \<open>
  \<^verbatim>\<open>x * k\<close> and \<^verbatim>\<open>x / k\<close> for a positive constant \<open>k\<close> that is a double
  (100 and 10 in the code).
\<close>

fun js_times :: "jsnum \<Rightarrow> rat \<Rightarrow> jsnum" where
  "js_times NaN k = NaN"
| "js_times Infinity k = Infinity"
| "js_times (Fin q) k = to_double (q * k)"

fun js_over :: "jsnum \<Rightarrow> rat \<Rightarrow> jsnum" where
  "js_over NaN k = NaN"
| "js_over Infinity k = Infinity"
| "js_over (Fin q) k = to_double (q / k)"

text \<open>
  \<^verbatim>\<open>Math.round\<close>: the nearest integer, a tie going up; the result is exact (an
  integer below \<open>2\<^sup>5\<^sup>3\<close> is a double, and a double from \<open>2\<^sup>5\<^sup>2\<close> on is an integer).
\<close>

fun Math_round :: "jsnum \<Rightarrow> jsnum" where
  "Math_round NaN = NaN"
| "Math_round Infinity = Infinity"
| "Math_round (Fin q) = Fin (of_int \<lfloor>q + 1 / 2\<rfloor>)"

text \<open>
  \<^verbatim>\<open>RoadmapStep\<close>: the seven fields that \<^verbatim>\<open>formData\<close> shares with it, and
  \<^verbatim>\<open>step_number\<close>, \<^verbatim>\<open>resource_id\<close>, \<^verbatim>\<open>completed?\<close> and \<^verbatim>\<open>completed_at?\<close>.
\<close>

record RoadmapStep = form_data +
  step_number :: int
  resource_id :: string
  completed :: "bool option"
  completed_at :: "string option"

record progress_summary_t =
  total_steps :: nat
  completed_steps :: nat
  completion_percentage :: jsnum

record Roadmap =
  roadmap_id :: string
  user_id :: string
  topic :: string
  brain_type :: string
  steps :: "RoadmapStep list"
  estimated_completion_weeks :: rat
  daily_time_minutes :: rat
  created_at :: string
  updated_at :: "string option"
  progress_summary :: "progress_summary_t option"

text \<open>
  The state of the \<^verbatim>\<open>RoadmapView\<close> component (\<open>view_loading\<close> and \<open>view_error\<close>
  are its \<^verbatim>\<open>loading\<close> and \<^verbatim>\<open>error\<close>).
\<close>

record view_state =
  roadmap :: "Roadmap option"
  view_loading :: bool
  view_error :: string
  editMode :: bool
  editingStep :: "RoadmapStep option"
  showAddModal :: bool
  updatingProgress :: "int option"

text \<open>\<^verbatim>\<open>!id\<close> for the route parameter: \<^verbatim>\<open>undefined\<close> or the empty string.\<close>

fun no_id :: "string option \<Rightarrow> bool" where
  "no_id None = True"
| "no_id (Some s) = (s = [])"

text \<open>
  The callback of \<^verbatim>\<open>prev.steps.map\<close>:
  \<^verbatim>\<open>
  step => step.step_number === stepNumber
    ? { ...step, completed, completed_at: completed ? new Date().toISOString() : undefined }
    : step
  \<close>
  \<open>now\<close> is what \<^verbatim>\<open>new Date().toISOString()\<close> returns during the update.
\<close>

definition toggle_step :: "int \<Rightarrow> bool \<Rightarrow> string \<Rightarrow> RoadmapStep \<Rightarrow> RoadmapStep" where
  "toggle_step stepNumber c now step =
     (if step_number step = stepNumber
      then step\<lparr>completed := Some c, completed_at := (if c then Some now else None)\<rparr>
      else step)"

text \<open>\<^verbatim>\<open>step => step.completed\<close>, the filter's test: \<^verbatim>\<open>undefined\<close> is falsy.\<close>

definition is_completed :: "RoadmapStep \<Rightarrow> bool" where
  "is_completed step = (completed step = Some True)"

text \<open>
  The updater given to \<^verbatim>\<open>setRoadmap\<close> for a roadmap that is not \<^verbatim>\<open>null\<close>:
  \<^verbatim>\<open>
  const updatedSteps = prev.steps.map(...);
  const completedSteps = updatedSteps.filter(step => step.completed).length;
  const completionPercentage = (completedSteps / updatedSteps.length) * 100;
  return { ...prev, steps: updatedSteps,
    progress_summary: { total_steps: updatedSteps.length, completed_steps: completedSteps,
      completion_percentage: Math.round(completionPercentage * 10) / 10 } };
  \<close>
\<close>

definition update_progress :: "int \<Rightarrow> bool \<Rightarrow> string \<Rightarrow> Roadmap \<Rightarrow> Roadmap" where
  "update_progress stepNumber c now prev =
     (let updatedSteps = map (toggle_step stepNumber c now) (steps prev);
          completedSteps = length (filter is_completed updatedSteps);
          completionPercentage = js_times (js_div completedSteps (length updatedSteps)) 100
      in prev\<lparr>steps := updatedSteps,
               progress_summary :=
                 Some \<lparr>total_steps = length updatedSteps,
                       completed_steps = completedSteps,
                       completion_percentage =
                         js_over (Math_round (js_times completionPercentage 10)) 10\<rparr>\<rparr>)"

text \<open>
  \<^verbatim>\<open>
  const handleProgressToggle = async (stepNumber: number, completed: boolean) => {
    if (!id || updatingProgress === stepNumber) return;
    setUpdatingProgress(stepNumber);
    try {
      await progressApi.updateStepProgress(id, stepNumber, completed);
      setRoadmap(prev => { if (!prev) return prev; ... });
    } catch (err: unknown) {
      setError(err instanceof Error ? err.message : 'Failed to update progress');
    } finally { setUpdatingProgress(null); }
  };
  \<close>
  \<open>rid\<close> is the route parameter \<^verbatim>\<open>id\<close>, \<open>api\<close> how the call of
  \<^verbatim>\<open>progressApi.updateStepProgress\<close> settles.
\<close>

definition handleProgressToggle ::
    "string option \<Rightarrow> outcome \<Rightarrow> string \<Rightarrow> int \<Rightarrow> bool \<Rightarrow> view_state \<Rightarrow> view_state" where
  "handleProgressToggle rid api now stepNumber c st =
     (if no_id rid \<or> updatingProgress st = Some stepNumber then st
      else
        (case api of
           Resolved \<Rightarrow>
             st\<lparr>roadmap := map_option (update_progress stepNumber c now) (roadmap st),
                updatingProgress := None\<rparr>
         | Rejected m \<Rightarrow>
             st\<lparr>view_error := message_or m ''Failed to update progress'',
                updatingProgress := None\<rparr>))"

text \<open>Concrete values for the evaluations below.\<close>

definition example_step :: "int \<Rightarrow> bool option \<Rightarrow> string option \<Rightarrow> RoadmapStep" where
  "example_step n c t =
     \<lparr>title = js ''Watch the lecture'', description = js ''First lecture'',
      resource_url = js ''https://example.com/lecture'', resource_type = js ''video'',
      estimated_time_minutes = 45, tags = [js ''python''], brain_type_optimized = True,
      step_number = n, resource_id = ''res-1'', completed = c, completed_at = t\<rparr>"

definition example_roadmap :: "RoadmapStep list \<Rightarrow> Roadmap" where
  "example_roadmap ss =
     \<lparr>roadmap_id = ''r1'', user_id = ''u1'', topic = ''Data Science'',
      brain_type = ''Visual'', steps = ss, estimated_completion_weeks = 6,
      daily_time_minutes = 60, created_at = ''2025-09-01T08:00:00.000Z'',
      updated_at = None, progress_summary = None\<rparr>"

definition example_view :: "Roadmap \<Rightarrow> view_state" where
  "example_view r =
     \<lparr>roadmap = Some r, view_loading = False, view_error = '''', editMode = False,
      editingStep = None, showAddModal = False, updatingProgress = None\<rparr>"


section \<open>The engine of the specification: data model\<close>

text \<open>
  The repository's sources hold the web client only; the engine that classifies,
  synthesizes and mutates roadmaps runs behind the HTTP routes the client calls. The
  definitions of this and the next three sections are modelled from the specification.
\<close>

text \<open>
  Modelled from the spec: the four fixed styles (only their names reach the client, as
  the string \<^verbatim>\<open>brain_type\<close>), in the canonical ordering of section 4.1.
\<close>

datatype style = Visual | Auditory | ReadWrite | Kinesthetic

text \<open>
  Modelled from the spec: the fixed canonical ordering of the styles that the missing
  classifier uses to break ties (section 4.1).
\<close>

definition canonical_order :: "style list" where
  "canonical_order = [Visual, Auditory, ReadWrite, Kinesthetic]"

text \<open>
  Modelled from the spec: the error kinds of section 7, which the client receives only
  as the \<^verbatim>\<open>error\<close> text of a failed response. \<open>InconsistentRoadmap\<close> is the
  consistency error of section 7 that is no caller-facing kind.
\<close>

datatype engine_error =
    IncompleteSubmission "string list"
  | InvalidAnswer
  | DegenerateSubmission
  | NoMatchingResources
  | InsufficientCatalog
  | InvalidPosition
  | StepNotFound
  | InvalidPermutation
  | StaleVersion
  | InconsistentRoadmap

text \<open>
  Modelled from the spec: RoadmapStep of section 3, which the missing engine owns (the
  client sees its JSON form). Timestamps are clock readings.
\<close>

record engine_step =
  s_number :: int
  s_title :: string
  s_description :: string
  s_resource :: string
  s_minutes :: nat
  s_tags :: "string list"
  s_style_fit :: bool
  s_completed :: bool
  s_completed_at :: "nat option"

text \<open>
  Modelled from the spec: Roadmap of section 3, which the missing engine owns, with the
  version counter and the timestamps that the client's \<^verbatim>\<open>Roadmap\<close> lacks or keeps as
  strings.
\<close>

record engine_roadmap =
  r_id :: string
  r_user :: string
  r_topic :: string
  r_style :: style
  r_steps :: "engine_step list"
  r_weeks :: nat
  r_daily_minutes :: nat
  r_created :: nat
  r_updated :: nat
  r_version :: nat

text \<open>
  Modelled from the spec: the step-numbering invariant of section 3, which the missing
  StepMutator maintains: the step numbers, in the order of the sequence, are
  \<open>1, ..., n\<close> for the \<open>n\<close> steps of the roadmap.
\<close>

definition numbered :: "engine_roadmap \<Rightarrow> bool" where
  "numbered r = (map s_number (r_steps r) = [1..int (length (r_steps r))])"


section \<open>The engine of the specification: StepMutator\<close>

text \<open>
  Modelled from the spec: what every successful mutation of the missing StepMutator does
  besides changing the steps (section 4.3): it increments the version counter and
  updates the "updated" timestamp. The version check of section 5 belongs to the storage
  collaborator that wraps the engine and is no part of these operations.
\<close>

definition committed :: "engine_roadmap \<Rightarrow> nat \<Rightarrow> engine_step list \<Rightarrow> engine_roadmap" where
  "committed r now ss = r\<lparr>r_steps := ss, r_updated := now, r_version := Suc (r_version r)\<rparr>"

text \<open>
  Modelled from the spec: Insert of the missing StepMutator. Given a new step's content
  and an optional target position (the default appends), renumber all steps at or after
  that position by +1 and insert the step there; \<open>InvalidPosition\<close> outside
  \<open>[1, len + 1]\<close>.
\<close>

definition insert_step ::
    "engine_step \<Rightarrow> int option \<Rightarrow> nat \<Rightarrow> engine_roadmap \<Rightarrow> engine_error + engine_roadmap" where
  "insert_step new pos now r =
     (let n = int (length (r_steps r));
          p = (case pos of None \<Rightarrow> n + 1 | Some q \<Rightarrow> q)
      in if p < 1 \<or> n + 1 < p then Inl InvalidPosition
         else
           (let shifted =
                  map (\<lambda>s. if p \<le> s_number s then s\<lparr>s_number := s_number s + 1\<rparr> else s)
                    (r_steps r)
            in Inr (committed r now
                 (take (nat (p - 1)) shifted @ new\<lparr>s_number := p\<rparr> # drop (nat (p - 1)) shifted))))"

text \<open>
  Modelled from the spec: Delete of the missing StepMutator. Given a step number, remove
  the step and renumber the subsequent steps down by 1; \<open>StepNotFound\<close> if the number
  does not exist.
\<close>

definition delete_step ::
    "int \<Rightarrow> nat \<Rightarrow> engine_roadmap \<Rightarrow> engine_error + engine_roadmap" where
  "delete_step k now r =
     (if \<not> list_ex (\<lambda>s. s_number s = k) (r_steps r) then Inl StepNotFound
      else Inr (committed r now
             (map (\<lambda>s. if k < s_number s then s\<lparr>s_number := s_number s - 1\<rparr> else s)
                (filter (\<lambda>s. s_number s \<noteq> k) (r_steps r)))))"

text \<open>
  Modelled from the spec: the strict validation of Reorder in the missing StepMutator.
  The supplied sequence has the length of the current step count \<open>n\<close>, no duplicate,
  and every value in \<open>1, ..., n\<close>.
\<close>

definition valid_permutation :: "nat \<Rightarrow> int list \<Rightarrow> bool" where
  "valid_permutation n order =
     (length order = n \<and> distinct order \<and> list_all (\<lambda>k. 1 \<le> k \<and> k \<le> int n) order)"

text \<open>
  Modelled from the spec: the lookup of the missing Reorder: the steps in the order in
  which the permutation lists their numbers. A listed number that no step has gives
  \<open>None\<close>; after a successful validation that is the consistency error of section 7.
\<close>

fun pick_steps :: "engine_step list \<Rightarrow> int list \<Rightarrow> engine_step list option" where
  "pick_steps ss [] = Some []"
| "pick_steps ss (k # ks) =
     (case find (\<lambda>s. s_number s = k) ss of
        None \<Rightarrow> None
      | Some s \<Rightarrow> map_option ((#) s) (pick_steps ss ks))"

text \<open>
  Modelled from the spec: the reassignment of step numbers by the missing Reorder:
  consecutive numbers in the order of the sequence.
\<close>

fun renumber_from :: "int \<Rightarrow> engine_step list \<Rightarrow> engine_step list" where
  "renumber_from i [] = []"
| "renumber_from i (s # ss) = s\<lparr>s_number := i\<rparr> # renumber_from (i + 1) ss"

text \<open>
  Modelled from the spec: Reorder of the missing StepMutator: strict validation, then the
  steps in the order of the permutation, numbered from 1.
\<close>

definition reorder_steps ::
    "int list \<Rightarrow> nat \<Rightarrow> engine_roadmap \<Rightarrow> engine_error + engine_roadmap" where
  "reorder_steps order now r =
     (if \<not> valid_permutation (length (r_steps r)) order then Inl InvalidPermutation
      else
        (case pick_steps (r_steps r) order of
           None \<Rightarrow> Inl InconsistentRoadmap
         | Some picked \<Rightarrow> Inr (committed r now (renumber_from 1 picked))))"

text \<open>
  Modelled from the spec: the structural mutation request of section 6 (insert, delete
  or reorder with its payload), a sequence of such requests, each with the clock reading
  of its execution, and the all-or-nothing rule of section 7 for the missing engine: the
  persisted roadmap after a request is the new roadmap when the operation succeeds and
  the old one when it fails.
\<close>

datatype mutation =
    Insert engine_step "int option"
  | Delete int
  | Reorder "int list"

text \<open>
  Modelled from the spec: a structural mutation request handed to the operation of the
  missing StepMutator that it names.
\<close>

fun apply_mutation :: "mutation \<Rightarrow> nat \<Rightarrow> engine_roadmap \<Rightarrow> engine_error + engine_roadmap" where
  "apply_mutation (Insert new pos) now r = insert_step new pos now r"
| "apply_mutation (Delete k) now r = delete_step k now r"
| "apply_mutation (Reorder order) now r = reorder_steps order now r"

text \<open>
  Modelled from the spec: a sequence of structural mutation requests run one after the
  other by the missing StepMutator; it ends at the first request that fails.
\<close>

fun apply_mutations ::
    "(mutation \<times> nat) list \<Rightarrow> engine_roadmap \<Rightarrow> engine_error + engine_roadmap" where
  "apply_mutations [] r = Inr r"
| "apply_mutations ((m, now) # ms) r =
     (case apply_mutation m now r of
        Inl e \<Rightarrow> Inl e
      | Inr r' \<Rightarrow> apply_mutations ms r')"

text \<open>
  Modelled from the spec: the persisted roadmap after a request to the missing engine
  (section 7, all-or-nothing): the new roadmap on success, the old one on failure.
\<close>

fun persisted :: "engine_roadmap \<Rightarrow> engine_error + engine_roadmap \<Rightarrow> engine_roadmap" where
  "persisted r (Inl e) = r"
| "persisted r (Inr r') = r'"

text \<open>Concrete values for the evaluations below.\<close>

definition plain_step :: "int \<Rightarrow> string \<Rightarrow> engine_step" where
  "plain_step n name =
     \<lparr>s_number = n, s_title = name, s_description = '''', s_resource = name,
      s_minutes = 30, s_tags = [], s_style_fit = True, s_completed = False,
      s_completed_at = None\<rparr>"

definition plain_roadmap :: "engine_step list \<Rightarrow> engine_roadmap" where
  "plain_roadmap ss =
     \<lparr>r_id = ''r1'', r_user = ''u1'', r_topic = ''Programming'', r_style = Visual,
      r_steps = ss, r_weeks = 6, r_daily_minutes = 60, r_created = 0, r_updated = 0,
      r_version = 0\<rparr>"


definition three_steps :: engine_roadmap where
  "three_steps = plain_roadmap [plain_step 1 ''a'', plain_step 2 ''b'', plain_step 3 ''c'']"


section \<open>The engine of the specification: BrainTypeClassifier\<close>

text \<open>
  Modelled from the spec: StyleScore of section 3, the accumulator of the missing
  BrainTypeClassifier: a weight for each of the four styles, which is also the
  style-weight vector an option carries. The weights of a published question are not
  negative; the type admits fractions.
\<close>

record style_score =
  visual :: rat
  auditory :: rat
  read_write :: rat
  kinesthetic :: rat

text \<open>
  Modelled from the spec: a style's entry in a StyleScore, read by the missing
  classifier.
\<close>

fun weight :: "style_score \<Rightarrow> style \<Rightarrow> rat" where
  "weight sc Visual = visual sc"
| "weight sc Auditory = auditory sc"
| "weight sc ReadWrite = read_write sc"
| "weight sc Kinesthetic = kinesthetic sc"

text \<open>
  Modelled from the spec: the empty running StyleScore with which the missing classifier
  starts.
\<close>

definition zero_score :: style_score where
  "zero_score = \<lparr>visual = 0, auditory = 0, read_write = 0, kinesthetic = 0\<rparr>"

text \<open>
  Modelled from the spec: the element-wise addition of a style-weight vector into the
  running StyleScore of the missing classifier.
\<close>

definition add_score :: "style_score \<Rightarrow> style_score \<Rightarrow> style_score" where
  "add_score a b =
     \<lparr>visual = visual a + visual b, auditory = auditory a + auditory b,
      read_write = read_write a + read_write b, kinesthetic = kinesthetic a + kinesthetic b\<rparr>"

text \<open>
  Modelled from the spec: the total weight over the four styles, by which the missing
  classifier normalizes.
\<close>

definition total_weight :: "style_score \<Rightarrow> rat" where
  "total_weight sc = visual sc + auditory sc + read_write sc + kinesthetic sc"

text \<open>
  Modelled from the spec: QuizQuestion, its options and QuizAnswer of section 3, the
  input of the missing BrainTypeClassifier (the client's \<^verbatim>\<open>QuizQuestion\<close> has no
  weights: they stay on the server).
\<close>

record quiz_option =
  o_id :: int
  o_text :: string
  o_weights :: style_score

text \<open>
  Modelled from the spec: QuizQuestion of section 3 (identifier, ordinal position, text,
  ordered options), as the missing classifier reads it.
\<close>

record quiz_question =
  q_id :: string
  q_position :: nat
  q_text :: string
  q_options :: "quiz_option list"

text \<open>
  Modelled from the spec: QuizAnswer of section 3 (question identifier, selected option
  identifier), the input of the missing classifier.
\<close>

record quiz_answer =
  a_question :: string
  a_option :: int

text \<open>
  Modelled from the spec: BrainTypeResult of section 3, the output of the missing
  BrainTypeClassifier: the winning style, the confidence score and the distribution,
  which lists each style's share of the total weight in the canonical order.
\<close>

record brain_type_result =
  winning_style :: style
  confidence_score :: rat
  distribution :: "(style \<times> rat) list"

text \<open>
  Modelled from the spec: the precondition of the missing classifier (section 4.1): the
  answers cover every question exactly once; the questions without an answer are named
  by \<open>IncompleteSubmission\<close>.
\<close>

definition covered_once :: "quiz_question list \<Rightarrow> quiz_answer list \<Rightarrow> bool" where
  "covered_once qs answers =
     list_all (\<lambda>q. count_list (map a_question answers) (q_id q) = 1) qs"

text \<open>
  Modelled from the spec: the question identifiers that \<open>IncompleteSubmission\<close> names in
  the missing classifier: those without an answer.
\<close>

definition missing_questions :: "quiz_question list \<Rightarrow> quiz_answer list \<Rightarrow> string list" where
  "missing_questions qs answers =
     filter (\<lambda>i. \<not> List.member (map a_question answers) i) (map q_id qs)"

text \<open>
  Modelled from the spec: the accumulation of the missing classifier (section 4.1): for
  each answer, look up the chosen option's style-weight vector and add it element-wise
  into the running score; an unknown question or option is \<open>InvalidAnswer\<close>.
\<close>

definition chosen_weights :: "quiz_question list \<Rightarrow> quiz_answer \<Rightarrow> style_score option" where
  "chosen_weights qs a =
     (case find (\<lambda>q. q_id q = a_question a) qs of
        None \<Rightarrow> None
      | Some q \<Rightarrow> map_option o_weights (find (\<lambda>opt. o_id opt = a_option a) (q_options q)))"

text \<open>
  Modelled from the spec: the loop of the missing classifier over the answers, which adds
  each chosen vector into the running score and stops at the first invalid answer.
\<close>

fun accumulate ::
    "quiz_question list \<Rightarrow> quiz_answer list \<Rightarrow> style_score \<Rightarrow> engine_error + style_score" where
  "accumulate qs [] acc = Inr acc"
| "accumulate qs (a # answers) acc =
     (case chosen_weights qs a of
        None \<Rightarrow> Inl InvalidAnswer
      | Some w \<Rightarrow> accumulate qs answers (add_score acc w))"

text \<open>
  Modelled from the spec: the normalization and the choice of the winner in the missing
  classifier (section 4.1): each style's share of the total weight; the winner is the
  style with the highest share and, among styles exactly tied for the maximum, the
  first in the canonical ordering. The styles are visited in that ordering, Visual
  first, and a later one replaces the current best only with a strictly higher share.
\<close>

definition share :: "style_score \<Rightarrow> style \<Rightarrow> rat" where
  "share sc s = weight sc s / total_weight sc"

text \<open>
  Modelled from the spec: one comparison of the missing classifier's choice of the
  winner; on equal shares the earlier style stays.
\<close>

definition better :: "style_score \<Rightarrow> style \<Rightarrow> style \<Rightarrow> style" where
  "better sc best s = (if share sc best < share sc s then s else best)"

text \<open>
  Modelled from the spec: the winning style of the missing classifier, found by visiting
  the styles in the canonical ordering.
\<close>

definition winner :: "style_score \<Rightarrow> style" where
  "winner sc = foldl (better sc) Visual [Auditory, ReadWrite, Kinesthetic]"

text \<open>
  Modelled from the spec: one-decimal rounding of a percentage in the missing engine;
  the spec names no rule for ties, which go up here.
\<close>

definition round1 :: "rat \<Rightarrow> rat" where
  "round1 x = rat_of_int \<lfloor>x * 10 + 1 / 2\<rfloor> / 10"

text \<open>
  Modelled from the spec: the missing BrainTypeClassifier (section 4.1): precondition,
  accumulation, normalization (\<open>DegenerateSubmission\<close> unless the total weight is
  positive), winner and confidence (the winner's percentage share, rounded to one
  decimal).
\<close>

definition classify ::
    "quiz_question list \<Rightarrow> quiz_answer list \<Rightarrow> engine_error + brain_type_result" where
  "classify qs answers =
     (if \<not> covered_once qs answers
      then Inl (IncompleteSubmission (missing_questions qs answers))
      else
        (case accumulate qs answers zero_score of
           Inl e \<Rightarrow> Inl e
         | Inr sc \<Rightarrow>
             if \<not> 0 < total_weight sc then Inl DegenerateSubmission
             else
               Inr \<lparr>winning_style = winner sc,
                       confidence_score = round1 (100 * share sc (winner sc)),
                       distribution = map (\<lambda>s. (s, share sc s)) canonical_order\<rparr>))"

text \<open>The place of a style in the canonical ordering.\<close>

text \<open>
  Modelled from the spec: the place of a style in the canonical ordering of the missing
  classifier, counted from 0.
\<close>

definition rank :: "style \<Rightarrow> nat" where
  "rank s = length (takeWhile (\<lambda>t. t \<noteq> s) canonical_order)"

text \<open>Concrete values for the evaluations below: two questions of two options each.\<close>

definition pure_weights :: "style \<Rightarrow> style_score" where
  "pure_weights s =
     \<lparr>visual = (if s = Visual then 1 else 0), auditory = (if s = Auditory then 1 else 0),
      read_write = (if s = ReadWrite then 1 else 0),
      kinesthetic = (if s = Kinesthetic then 1 else 0)\<rparr>"

definition two_questions :: "quiz_question list" where
  "two_questions =
     [\<lparr>q_id = ''q1'', q_position = 1, q_text = ''How do you study?'',
       q_options = [\<lparr>o_id = 0, o_text = ''Diagrams'', o_weights = pure_weights Visual\<rparr>,
                    \<lparr>o_id = 1, o_text = ''Practice'', o_weights = pure_weights Kinesthetic\<rparr>]\<rparr>,
      \<lparr>q_id = ''q2'', q_position = 2, q_text = ''How do you revise?'',
       q_options = [\<lparr>o_id = 0, o_text = ''Podcasts'', o_weights = pure_weights Auditory\<rparr>,
                    \<lparr>o_id = 1, o_text = ''Notes'', o_weights = pure_weights ReadWrite\<rparr>]\<rparr>]"

definition tied_answers :: "quiz_answer list" where
  "tied_answers = [\<lparr>a_question = ''q1'', a_option = 1\<rparr>, \<lparr>a_question = ''q2'', a_option = 0\<rparr>]"


section \<open>The engine of the specification: RoadmapSynthesizer\<close>

text \<open>
  Modelled from the spec: the intensity levels of the missing RoadmapSynthesizer and
  their budget (section 4.2): beginner 30 min/day over 8 weeks, intermediate 60 over 6,
  advanced 90 over 4. The client sends the level as the string value of the Quiz page's
  select.
\<close>

datatype intensity = Beginner | Intermediate | Advanced

text \<open>
  Modelled from the spec: the daily-minutes budget of an intensity level in the missing
  synthesizer (section 4.2).
\<close>

fun daily_minutes :: "intensity \<Rightarrow> nat" where
  "daily_minutes Beginner = 30"
| "daily_minutes Intermediate = 60"
| "daily_minutes Advanced = 90"

text \<open>
  Modelled from the spec: the target week count of an intensity level in the missing
  synthesizer (section 4.2).
\<close>

fun target_weeks :: "intensity \<Rightarrow> nat" where
  "target_weeks Beginner = 8"
| "target_weeks Intermediate = 6"
| "target_weeks Advanced = 4"

text \<open>
  Modelled from the spec: Resource of section 3, an entry of the catalog that the
  missing synthesizer reads. The formats are those the client knows how to render.
\<close>

datatype resource_format = Video | Article | Tutorial | Course | Podcast | Book | Exercise

text \<open>
  Modelled from the spec: Resource of section 3: identifier, topic, format,
  style-affinity set, nominal duration in minutes and tags.
\<close>

record resource =
  res_id :: string
  res_topic :: string
  res_format :: resource_format
  res_affinity :: "style list"
  res_minutes :: nat
  res_tags :: "string list"

text \<open>
  Modelled from the spec: the selection of the missing synthesizer (section 4.2): the
  candidates of the topic, style-matched ones first, taken greedily in ranked order
  until the cumulative time meets the budget or the pool is exhausted.
\<close>

definition style_matched :: "style \<Rightarrow> resource \<Rightarrow> bool" where
  "style_matched st res = List.member (res_affinity res) st"

text \<open>
  Modelled from the spec: the ranking of the missing synthesizer: style-matched
  resources first, each group in catalog order.
\<close>

definition ranked :: "style \<Rightarrow> resource list \<Rightarrow> resource list" where
  "ranked st pool = filter (style_matched st) pool @ filter (\<lambda>res. \<not> style_matched st res) pool"

text \<open>
  Modelled from the spec: the greedy selection of the missing synthesizer: it stops once
  the budget is met or the candidates are exhausted.
\<close>

fun take_until_budget :: "nat \<Rightarrow> nat \<Rightarrow> resource list \<Rightarrow> resource list" where
  "take_until_budget budget spent [] = []"
| "take_until_budget budget spent (res # rest) =
     (if budget \<le> spent then []
      else res # take_until_budget budget (spent + res_minutes res) rest)"

text \<open>
  Modelled from the spec: the steps of the missing synthesizer: sequential step numbers
  in selection order starting at 1, the style-fit flag for style-matched resources.
  The spec does not say where a step's title and description come from; \<open>describe\<close>
  supplies them.
\<close>

fun steps_from ::
    "(resource \<Rightarrow> string \<times> string) \<Rightarrow> style \<Rightarrow> int \<Rightarrow> resource list \<Rightarrow> engine_step list" where
  "steps_from describe st i [] = []"
| "steps_from describe st i (res # rest) =
     \<lparr>s_number = i, s_title = fst (describe res), s_description = snd (describe res),
      s_resource = res_id res, s_minutes = res_minutes res, s_tags = res_tags res,
      s_style_fit = style_matched st res, s_completed = False, s_completed_at = None\<rparr>
     # steps_from describe st (i + 1) rest"

text \<open>
  Modelled from the spec: the missing RoadmapSynthesizer (section 4.2).
  \<open>NoMatchingResources\<close> when no resource has the topic, \<open>InsufficientCatalog\<close> when
  fewer than \<open>min_steps\<close> steps can be assembled; the new roadmap takes its daily
  budget and its weeks from the intensity level. \<open>rid\<close>, \<open>user\<close> and \<open>now\<close> are the
  new roadmap's identifier, its owner and the time of creation.
\<close>

definition synthesize ::
    "(resource \<Rightarrow> string \<times> string) \<Rightarrow> nat \<Rightarrow> resource list \<Rightarrow> string \<Rightarrow> string \<Rightarrow> nat \<Rightarrow>
     style \<Rightarrow> string \<Rightarrow> intensity \<Rightarrow> engine_error + engine_roadmap" where
  "synthesize describe min_steps catalog rid user now st tp level =
     (let pool = filter (\<lambda>res. res_topic res = tp) catalog in
      if pool = [] then Inl NoMatchingResources
      else
        (let selected =
               take_until_budget (daily_minutes level * 7 * target_weeks level) 0
                 (ranked st pool)
         in if length selected < min_steps then Inl InsufficientCatalog
            else Inr \<lparr>r_id = rid, r_user = user, r_topic = tp, r_style = st,
                      r_steps = steps_from describe st 1 selected,
                      r_weeks = target_weeks level,
                      r_daily_minutes = daily_minutes level,
                      r_created = now, r_updated = now, r_version = 0\<rparr>))"

text \<open>
  The intensity select of the Quiz page (pages/Quiz.tsx), as pairs of value and label:
  \<^verbatim>\<open>
  <SelectItem value="beginner">Beginner (30 min/day, 8 weeks)</SelectItem>
  <SelectItem value="intermediate">Intermediate (60 min/day, 6 weeks)</SelectItem>
  <SelectItem value="advanced">Advanced (90 min/day, 4 weeks)</SelectItem>
  \<close>
\<close>

definition intensity_items :: "(string \<times> string) list" where
  "intensity_items =
     [(''beginner'', ''Beginner (30 min/day, 8 weeks)''),
      (''intermediate'', ''Intermediate (60 min/day, 6 weeks)''),
      (''advanced'', ''Advanced (90 min/day, 4 weeks)'')]"

text \<open>The label that the budget of a level gives.\<close>

fun level_name :: "intensity \<Rightarrow> string" where
  "level_name Beginner = ''Beginner''"
| "level_name Intermediate = ''Intermediate''"
| "level_name Advanced = ''Advanced''"

definition budget_label :: "intensity \<Rightarrow> string" where
  "budget_label level =
     level_name level @ '' ('' @ show_nat (daily_minutes level) @ '' min/day, ''
       @ show_nat (target_weeks level) @ '' weeks)''"

text \<open>Concrete values for the evaluations below: a catalog of four resources.\<close>

definition small_catalog :: "resource list" where
  "small_catalog =
     [\<lparr>res_id = ''p1'', res_topic = ''Programming'', res_format = Article,
       res_affinity = [ReadWrite], res_minutes = 40, res_tags = []\<rparr>,
      \<lparr>res_id = ''p2'', res_topic = ''Programming'', res_format = Video,
       res_affinity = [Visual, Auditory], res_minutes = 90, res_tags = []\<rparr>,
      \<lparr>res_id = ''d1'', res_topic = ''Design'', res_format = Video,
       res_affinity = [Visual], res_minutes = 60, res_tags = []\<rparr>,
      \<lparr>res_id = ''p3'', res_topic = ''Programming'', res_format = Exercise,
       res_affinity = [Kinesthetic], res_minutes = 120, res_tags = []\<rparr>]"

definition by_id :: "resource \<Rightarrow> string \<times> string" where
  "by_id res = (res_id res, '''')"


section \<open>Properties of handleResponse\<close>

lemma handleResponse_ok:
  "ok r \<Longrightarrow>
     handleResponse zero num_text r
       = (case json_result r of None \<Rightarrow> Inl SyntaxError | Some d \<Rightarrow> Inr d)"
  by (simp add: handleResponse_def)

lemma handleResponse_returns_iff:
  "handleResponse zero num_text r = Inr d \<longleftrightarrow> ok r \<and> json_result r = Some d"
  by (auto simp: handleResponse_def Let_def split: option.splits sum.splits)

lemma to_string_of_string: "to_string num_text (JStr s) = Some s"
  by simp

text \<open>
  Claim C9, as the code has it: \<^verbatim>\<open>handleResponse\<close> returns the parsed JSON body
  exactly when \<^verbatim>\<open>response.ok\<close> is true and the body parses as JSON. When
  \<^verbatim>\<open>response.ok\<close> is false it throws an \<^verbatim>\<open>ApiError\<close> whose status is the HTTP
  status and whose message is \<^verbatim>\<open>'Unknown error'\<close> when the body is not parseable;
  the body's \<^verbatim>\<open>error\<close> field when the body is a JSON object and that field is a
  string that is not empty; the string conversion of the \<^verbatim>\<open>error\<close> field when the
  field is another truthy value that converts; and \<^verbatim>\<open>'Request failed'\<close> when the
  body is a JSON object whose \<^verbatim>\<open>error\<close> field is missing or falsy, or any other
  JSON value except \<^verbatim>\<open>null\<close>.
\<close>

theorem handleResponse_amended:
  "(handleResponse zero num_text r = Inr d \<longleftrightarrow> ok r \<and> json_result r = Some d) \<and>
   (\<not> ok r \<and> json_result r = None \<longrightarrow>
      handleResponse zero num_text r = Inl (ApiError (status r) (js ''Unknown error''))) \<and>
   (\<not> ok r \<and> json_result r = Some (JObj kvs) \<and>
      map_of (rev kvs) (js ''error'') = Some (JStr s) \<and> s \<noteq> [] \<longrightarrow>
      handleResponse zero num_text r = Inl (ApiError (status r) s)) \<and>
   (\<not> ok r \<and> json_result r = Some (JObj kvs) \<and>
      map_of (rev kvs) (js ''error'') = Some v \<and> truthy zero v \<and> to_string num_text v = Some m \<longrightarrow>
      handleResponse zero num_text r = Inl (ApiError (status r) m)) \<and>
   (\<not> ok r \<and> json_result r = Some (JObj kvs) \<and>
      (map_of (rev kvs) (js ''error'') = None \<or>
       (\<exists>w. map_of (rev kvs) (js ''error'') = Some w \<and> \<not> truthy zero w)) \<longrightarrow>
      handleResponse zero num_text r = Inl (ApiError (status r) (js ''Request failed''))) \<and>
   (\<not> ok r \<and> json_result r = Some b \<and> b \<noteq> JNull \<and> (\<forall>ms. b \<noteq> JObj ms) \<longrightarrow>
      handleResponse zero num_text r = Inl (ApiError (status r) (js ''Request failed'')))"
proof (intro conjI impI)
  show "handleResponse zero num_text r = Inr d \<longleftrightarrow> ok r \<and> json_result r = Some d"
    by (rule handleResponse_returns_iff)
next
  assume "\<not> ok r \<and> json_result r = None"
  then show "handleResponse zero num_text r = Inl (ApiError (status r) (js ''Unknown error''))"
    by (simp add: handleResponse_def new_ApiError_def js_def)
next
  assume "\<not> ok r \<and> json_result r = Some (JObj kvs) \<and>
      map_of (rev kvs) (js ''error'') = Some (JStr s) \<and> s \<noteq> []"
  then show "handleResponse zero num_text r = Inl (ApiError (status r) s)"
    by (simp add: handleResponse_def new_ApiError_def)
next
  assume "\<not> ok r \<and> json_result r = Some (JObj kvs) \<and>
      map_of (rev kvs) (js ''error'') = Some v \<and> truthy zero v \<and> to_string num_text v = Some m"
  then show "handleResponse zero num_text r = Inl (ApiError (status r) m)"
    by (simp add: handleResponse_def new_ApiError_def)
next
  assume "\<not> ok r \<and> json_result r = Some (JObj kvs) \<and>
      (map_of (rev kvs) (js ''error'') = None \<or>
       (\<exists>w. map_of (rev kvs) (js ''error'') = Some w \<and> \<not> truthy zero w))"
  then show "handleResponse zero num_text r = Inl (ApiError (status r) (js ''Request failed''))"
    by (auto simp: handleResponse_def new_ApiError_def)
next
  assume "\<not> ok r \<and> json_result r = Some b \<and> b \<noteq> JNull \<and> (\<forall>ms. b \<noteq> JObj ms)"
  then show "handleResponse zero num_text r = Inl (ApiError (status r) (js ''Request failed''))"
    by (cases b) (simp_all add: handleResponse_def new_ApiError_def)
qed

text \<open>
  The amended claim C9 at six concrete responses, one for each of its cases; the numbers
  of the bodies are integers, printed in decimal digits.
\<close>

theorem handleResponse_amended_witness:
  "handleResponse is_zero show_int
       \<lparr>ok = True, status = 200, json_result = Some (JObj [(js ''roadmaps'', JArr [])])\<rparr>
     = Inr (JObj [(js ''roadmaps'', JArr [])]) \<and>
   handleResponse is_zero show_int \<lparr>ok = False, status = 502, json_result = None\<rparr>
     = Inl (ApiError 502 (js ''Unknown error'')) \<and>
   handleResponse is_zero show_int
       \<lparr>ok = False, status = 404,
        json_result = Some (JObj [(js ''error'', JStr (js ''Roadmap not found''))])\<rparr>
     = Inl (ApiError 404 (js ''Roadmap not found'')) \<and>
   handleResponse is_zero show_int
       \<lparr>ok = False, status = 400,
        json_result = Some (JObj [(js ''error'', JArr [JNum 42, JNull, JBool True])])\<rparr>
     = Inl (ApiError 400 (js ''42,,true'')) \<and>
   handleResponse is_zero show_int
       \<lparr>ok = False, status = 422, json_result = Some (JObj [(js ''msg'', JStr (js ''bad token''))])\<rparr>
     = Inl (ApiError 422 (js ''Request failed'')) \<and>
   handleResponse is_zero show_int
       \<lparr>ok = False, status = 500, json_result = Some (JStr (js ''oops''))\<rparr>
     = Inl (ApiError 500 (js ''Request failed''))"
proof -
  have conv: "to_string show_int (JArr [JNum 42, JNull, JBool True]) = Some (js ''42,,true'')"
    by (simp add: js_def show_int_def)
  show ?thesis
    using
      handleResponse_amended [where zero = is_zero and num_text = show_int
        and r = "\<lparr>ok = True, status = 200,
                  json_result = Some (JObj [(js ''roadmaps'', JArr [])])\<rparr>"
        and d = "JObj [(js ''roadmaps'', JArr [])]"]
      handleResponse_amended [where zero = is_zero and num_text = show_int
        and r = "\<lparr>ok = False, status = 502, json_result = None\<rparr>"]
      handleResponse_amended [where zero = is_zero and num_text = show_int
        and r = "\<lparr>ok = False, status = 404,
                  json_result = Some (JObj [(js ''error'', JStr (js ''Roadmap not found''))])\<rparr>"
        and kvs = "[(js ''error'', JStr (js ''Roadmap not found''))]"
        and s = "js ''Roadmap not found''"]
      handleResponse_amended [where zero = is_zero and num_text = show_int
        and r = "\<lparr>ok = False, status = 400,
                  json_result = Some (JObj [(js ''error'', JArr [JNum 42, JNull, JBool True])])\<rparr>"
        and kvs = "[(js ''error'', JArr [JNum 42, JNull, JBool True])]"
        and v = "JArr [JNum 42, JNull, JBool True]" and m = "js ''42,,true''"]
      handleResponse_amended [where zero = is_zero and num_text = show_int
        and r = "\<lparr>ok = False, status = 422,
                  json_result = Some (JObj [(js ''msg'', JStr (js ''bad token''))])\<rparr>"
        and kvs = "[(js ''msg'', JStr (js ''bad token''))]"]
      handleResponse_amended [where zero = is_zero and num_text = show_int
        and r = "\<lparr>ok = False, status = 500, json_result = Some (JStr (js ''oops''))\<rparr>"
        and b = "JStr (js ''oops'')"]
      conv
    by (simp add: js_def)
qed

text \<open>
  Claim C9 as stated fails: an empty \<^verbatim>\<open>error\<close> field is not the message (the
  fallback \<^verbatim>\<open>'Request failed'\<close> is); an ok response whose body is not JSON
  returns nothing (the rejection of \<^verbatim>\<open>response.json()\<close> propagates); a failed
  response whose body is the JSON value \<^verbatim>\<open>null\<close> throws a \<^verbatim>\<open>TypeError\<close>, not
  an \<^verbatim>\<open>ApiError\<close>; and so does one whose \<^verbatim>\<open>error\<close> field is an object with a
  member \<^verbatim>\<open>toString\<close>.
\<close>

theorem handleResponse_counterexample:
  "handleResponse is_zero show_int
       \<lparr>ok = False, status = 400, json_result = Some (JObj [(js ''error'', JStr [])])\<rparr>
     = Inl (ApiError 400 (js ''Request failed'')) \<and>
   handleResponse is_zero show_int
       \<lparr>ok = False, status = 400, json_result = Some (JObj [(js ''error'', JStr [])])\<rparr>
     \<noteq> Inl (ApiError 400 []) \<and>
   handleResponse is_zero show_int \<lparr>ok = True, status = 200, json_result = None\<rparr>
     = Inl SyntaxError \<and>
   handleResponse is_zero show_int \<lparr>ok = False, status = 500, json_result = Some JNull\<rparr>
     = Inl TypeError \<and>
   handleResponse is_zero show_int
       \<lparr>ok = False, status = 500,
        json_result = Some (JObj [(js ''error'', JObj [(js ''toString'', JNum 1)])])\<rparr>
     = Inl TypeError"
  by (simp add: handleResponse_def new_ApiError_def js_def)


section \<open>Properties of EditStepModal.handleSubmit\<close>

text \<open>
  Claim C10: \<^verbatim>\<open>onSave\<close> is called only when title, description and resource URL
  are non-blank after trimming and the estimated time is at least 1 minute; when one
  of the checks fails, \<^verbatim>\<open>onSave\<close> is not called, an error message is set and
  \<^verbatim>\<open>onClose\<close> is not called, so the modal stays open.
\<close>

theorem handleSubmit_validation:
  "(onSave_calls (handleSubmit save st) \<noteq> [] \<longrightarrow>
      trim (title (formData st)) \<noteq> [] \<and> trim (description (formData st)) \<noteq> [] \<and>
      trim (resource_url (formData st)) \<noteq> [] \<and> 1 \<le> estimated_time_minutes (formData st)) \<and>
   (trim (title (formData st)) = [] \<or> trim (description (formData st)) = [] \<or>
      trim (resource_url (formData st)) = [] \<or> estimated_time_minutes (formData st) < 1 \<longrightarrow>
      onSave_calls (handleSubmit save st) = [] \<and>
      error (state (handleSubmit save st)) \<noteq> [] \<and>
      \<not> onClose_called (handleSubmit save st))"
  by (auto simp: handleSubmit_def Let_def split: outcome.splits)

text \<open>Claim C10 at a form that passes the checks and at one with a blank title.\<close>

theorem handleSubmit_validation_witness:
  "onSave_calls (handleSubmit Resolved (example_modal example_form)) = [example_form] \<and>
   trim (title example_form) = js ''Intro'' \<and>
   trim (description example_form) = js ''Read chapter 1'' \<and>
   trim (resource_url example_form) = js ''https://example.com'' \<and>
   estimated_time_minutes example_form = 60 \<and>
   trim (title (example_form\<lparr>title := js ''  ''\<rparr>)) = [] \<and>
   onSave_calls (handleSubmit Resolved (example_modal (example_form\<lparr>title := js ''  ''\<rparr>))) = [] \<and>
   error (state (handleSubmit Resolved (example_modal (example_form\<lparr>title := js ''  ''\<rparr>)))) = ''Title is required'' \<and>
   \<not> onClose_called (handleSubmit Resolved (example_modal (example_form\<lparr>title := js ''  ''\<rparr>)))"
  using handleSubmit_validation [of Resolved "example_modal example_form"]
    handleSubmit_validation [of Resolved "example_modal (example_form\<lparr>title := js ''  ''\<rparr>)"]
  by (simp add: handleSubmit_def Let_def example_modal_def example_form_def trim_def
        is_space_def js_def)


section \<open>Properties of RoadmapView.handleProgressToggle\<close>

text \<open>
  The recomputed summary counts the updated steps and holds the percentage that the
  double arithmetic of the handler gives for the two counts.
\<close>

lemma update_progress_steps:
  "steps (update_progress n c now r) = map (toggle_step n c now) (steps r)"
  by (simp add: update_progress_def Let_def)

lemma update_progress_counts:
  "progress_summary (update_progress n c now r) = Some s \<Longrightarrow>
     total_steps s = length (steps (update_progress n c now r)) \<and>
     completed_steps s = length (filter is_completed (steps (update_progress n c now r)))"
  by (auto simp: update_progress_def Let_def)

lemma update_progress_percentage:
  "progress_summary (update_progress n c now r) = Some s \<Longrightarrow>
     completion_percentage s
       = js_over (Math_round
           (js_times (js_times (js_div (completed_steps s) (total_steps s)) 100) 10)) 10"
  by (auto simp: update_progress_def Let_def)

text \<open>
  The doubles at work: with 23 of 80 steps completed the product
  \<^verbatim>\<open>(23 / 80) * 100 * 10\<close> falls just below 287.5, and the percentage is the double
  of 28.7, where exact arithmetic would give 28.8.
\<close>

lemma percentage_23_of_80:
  "js_over (Math_round (js_times (js_times (js_div 23 80) 100) 10)) 10 = to_double (287 / 10)"
  by code_simp

text \<open>
  Claim C2 says that with no steps the percentage is 0. The handler divides 0 by 0: for
  a roadmap without steps the recomputed summary holds \<^verbatim>\<open>NaN\<close>.
\<close>

theorem handleProgressToggle_no_steps:
  "roadmap (handleProgressToggle (Some ''r1'') Resolved ''2025-09-20T10:00:00.000Z'' 1 True
              (example_view (example_roadmap [])))
     = Some ((example_roadmap [])
          \<lparr>progress_summary :=
             Some \<lparr>total_steps = 0, completed_steps = 0, completion_percentage = NaN\<rparr>\<rparr>)"
  by (simp add: handleProgressToggle_def update_progress_def Let_def js_div_def
        example_view_def example_roadmap_def)

text \<open>
  Claim C3, as the code has it: a toggle that the server accepted sets, on every step
  with the given number, the flag to the given value and the completion timestamp to
  the time of this call when the value is true (also when the flag was true before)
  and to nothing when it is false; the other steps are left as they were.
\<close>

theorem handleProgressToggle_timestamp:
  assumes "\<not> no_id rid" and "updatingProgress st \<noteq> Some n" and "roadmap st = Some r"
  shows "\<exists>r'. roadmap (handleProgressToggle rid Resolved now n c st) = Some r' \<and>
           length (steps r') = length (steps r) \<and>
           (\<forall>i < length (steps r).
              if step_number (steps r ! i) = n
              then completed (steps r' ! i) = Some c \<and>
                   completed_at (steps r' ! i) = (if c then Some now else None)
              else steps r' ! i = steps r ! i)"
  using assms
  by (simp add: handleProgressToggle_def update_progress_steps toggle_step_def)

text \<open>
  Claim C3 as amended, on a roadmap of two completed steps: setting step 1 to true again
  stamps it anew, setting step 2 to false clears its timestamp.
\<close>

theorem handleProgressToggle_timestamp_witness:
  "\<not> no_id (Some ''r1'') \<and>
   map_option (\<lambda>r. map completed_at (steps r))
     (roadmap (handleProgressToggle (Some ''r1'') Resolved ''2025-09-21T09:30:00.000Z'' 1 True
        (example_view (example_roadmap
           [example_step 1 (Some True) (Some ''2025-09-20T10:00:00.000Z''),
            example_step 2 (Some True) (Some ''2025-09-20T11:00:00.000Z'')]))))
     = Some [Some ''2025-09-21T09:30:00.000Z'', Some ''2025-09-20T11:00:00.000Z''] \<and>
   map_option (\<lambda>r. map completed_at (steps r))
     (roadmap (handleProgressToggle (Some ''r1'') Resolved ''2025-09-21T09:30:00.000Z'' 2 False
        (example_view (example_roadmap
           [example_step 1 (Some True) (Some ''2025-09-20T10:00:00.000Z''),
            example_step 2 (Some True) (Some ''2025-09-20T11:00:00.000Z'')]))))
     = Some [Some ''2025-09-20T10:00:00.000Z'', None]"
  using
    handleProgressToggle_timestamp [of "Some ''r1''"
      "example_view (example_roadmap
           [example_step 1 (Some True) (Some ''2025-09-20T10:00:00.000Z''),
            example_step 2 (Some True) (Some ''2025-09-20T11:00:00.000Z'')])" 1
      "example_roadmap
           [example_step 1 (Some True) (Some ''2025-09-20T10:00:00.000Z''),
            example_step 2 (Some True) (Some ''2025-09-20T11:00:00.000Z'')]"
      "''2025-09-21T09:30:00.000Z''" True]
    handleProgressToggle_timestamp [of "Some ''r1''"
      "example_view (example_roadmap
           [example_step 1 (Some True) (Some ''2025-09-20T10:00:00.000Z''),
            example_step 2 (Some True) (Some ''2025-09-20T11:00:00.000Z'')])" 2
      "example_roadmap
           [example_step 1 (Some True) (Some ''2025-09-20T10:00:00.000Z''),
            example_step 2 (Some True) (Some ''2025-09-20T11:00:00.000Z'')]"
      "''2025-09-21T09:30:00.000Z''" False]
  by (simp add: handleProgressToggle_def update_progress_def Let_def toggle_step_def
        example_view_def example_roadmap_def example_step_def)

text \<open>
  Claim C3 as stated fails: setting a step that is already completed to true again
  replaces the recorded completion timestamp by the time of the second call.
\<close>

theorem handleProgressToggle_timestamp_counterexample:
  "map_option (\<lambda>r. map completed_at (steps r))
     (roadmap (handleProgressToggle (Some ''r1'') Resolved ''2025-09-21T09:30:00.000Z'' 1 True
        (example_view (example_roadmap
           [example_step 1 (Some True) (Some ''2025-09-20T10:00:00.000Z'')]))))
     = Some [Some ''2025-09-21T09:30:00.000Z''] \<and>
   map_option (\<lambda>r. map completed_at (steps r))
     (roadmap (handleProgressToggle (Some ''r1'') Resolved ''2025-09-21T09:30:00.000Z'' 1 True
        (example_view (example_roadmap
           [example_step 1 (Some True) (Some ''2025-09-20T10:00:00.000Z'')]))))
     \<noteq> Some [Some ''2025-09-20T10:00:00.000Z'']"
  by (simp add: handleProgressToggle_def update_progress_def Let_def toggle_step_def
        example_view_def example_roadmap_def example_step_def)


section \<open>Properties of the mutation requests\<close>

lemma no_member_in_numbers: "\<not> mentions_in_list k (map JNum ns)"
  by (induction ns) simp_all

lemma no_member_in_strings: "\<not> mentions_in_list k (map JStr ss)"
  by (induction ss) simp_all

lemma formData_object_names:
  "map fst (formData_object fd)
     = [js ''title'', js ''description'', js ''resource_url'', js ''resource_type'',
        js ''estimated_time_minutes'', js ''tags'', js ''brain_type_optimized'']"
  by (simp add: formData_object_def)

text \<open>
  Claim C5, as the code has it: a mutation request is made of the roadmap id, the
  session token and the operation's payload, and of nothing else. A progress toggle
  posts exactly \<^verbatim>\<open>step_number\<close> and \<^verbatim>\<open>completed\<close> to
  \<^verbatim>\<open>/roadmaps/{id}/progress\<close>; a reorder puts exactly \<^verbatim>\<open>step_order\<close> to
  \<^verbatim>\<open>/roadmaps/{id}/steps/reorder\<close>; a delete names the step in the URL and has no
  body; an insert posts the step data as its caller passes it, which in the client is
  the modal's form data with its seven members. The only headers are the content type
  and, with a token, the authorization. No body has a member \<^verbatim>\<open>version\<close> at any
  depth: no mutation request carries a version.
\<close>

theorem mutation_requests_carry_no_version:
  "updateStepProgress_request token roadmapId stepNumber c
     = \<lparr>url = ''http://localhost:5000/roadmaps/'' @ roadmapId @ ''/progress'',
        http_method = ''POST'',
        headers = (''Content-Type'', ''application/json'') # getAuthHeaders token,
        body = Some (JObj [(js ''step_number'', JNum stepNumber), (js ''completed'', JBool c)])\<rparr> \<and>
   reorderSteps_request token roadmapId stepOrder
     = \<lparr>url = ''http://localhost:5000/roadmaps/'' @ roadmapId @ ''/steps/reorder'',
        http_method = ''PUT'',
        headers = (''Content-Type'', ''application/json'') # getAuthHeaders token,
        body = Some (JObj [(js ''step_order'', JArr (map JNum stepOrder))])\<rparr> \<and>
   deleteStep_request num_text token roadmapId stepNumber
     = \<lparr>url = ''http://localhost:5000/roadmaps/'' @ roadmapId @ ''/steps/'' @ num_text stepNumber,
        http_method = ''DELETE'',
        headers = getAuthHeaders token,
        body = None\<rparr> \<and>
   addStep_request token roadmapId stepData
     = \<lparr>url = ''http://localhost:5000/roadmaps/'' @ roadmapId @ ''/steps'',
        http_method = ''POST'',
        headers = (''Content-Type'', ''application/json'') # getAuthHeaders token,
        body = Some (JObj stepData)\<rparr> \<and>
   map fst (getAuthHeaders token)
     = (if token = None \<or> token = Some [] then [] else [''Authorization'']) \<and>
   \<not> mentions (js ''version'')
       (JObj [(js ''step_number'', JNum stepNumber), (js ''completed'', JBool c)]) \<and>
   \<not> mentions (js ''version'') (JObj [(js ''step_order'', JArr (map JNum stepOrder))]) \<and>
   body (addStep_request token roadmapId (formData_object fd)) = Some (JObj (formData_object fd)) \<and>
   map fst (formData_object fd)
     = [js ''title'', js ''description'', js ''resource_url'', js ''resource_type'',
        js ''estimated_time_minutes'', js ''tags'', js ''brain_type_optimized''] \<and>
   \<not> mentions (js ''version'') (JObj (formData_object fd))"
proof (intro conjI)
  show "map fst (getAuthHeaders token)
     = (if token = None \<or> token = Some [] then [] else [''Authorization''])"
    by (cases token) simp_all
  show "\<not> mentions (js ''version'') (JObj (formData_object fd))"
    by (simp add: formData_object_def no_member_in_strings js_def)
qed (simp_all add: updateStepProgress_request_def reorderSteps_request_def
       deleteStep_request_def addStep_request_def API_BASE_URL_def formData_object_names
       no_member_in_numbers js_def)

text \<open>
  Claim C5 as stated fails: the requests of a progress toggle and of a reorder hold the
  roadmap id, the token and the payload, and no version.
\<close>

theorem mutation_requests_version_counterexample:
  "updateStepProgress_request (Some ''token'') ''r1'' (2 :: int) True
     = \<lparr>url = ''http://localhost:5000/roadmaps/r1/progress'',
        http_method = ''POST'',
        headers = [(''Content-Type'', ''application/json''), (''Authorization'', ''Bearer token'')],
        body = Some (JObj [(js ''step_number'', JNum 2), (js ''completed'', JBool True)])\<rparr> \<and>
   \<not> mentions (js ''version'')
       (JObj [(js ''step_number'', JNum (2 :: int)), (js ''completed'', JBool True)]) \<and>
   reorderSteps_request (Some ''token'') ''r1'' [3, 1, 2 :: int]
     = \<lparr>url = ''http://localhost:5000/roadmaps/r1/steps/reorder'',
        http_method = ''PUT'',
        headers = [(''Content-Type'', ''application/json''), (''Authorization'', ''Bearer token'')],
        body = Some (JObj [(js ''step_order'', JArr [JNum 3, JNum 1, JNum 2])])\<rparr> \<and>
   \<not> mentions (js ''version'')
       (JObj [(js ''step_order'', JArr [JNum (3 :: int), JNum 1, JNum 2])])"
  by (simp add: updateStepProgress_request_def reorderSteps_request_def API_BASE_URL_def js_def)


section \<open>Properties of the StepMutator\<close>

text \<open>
  Renumbering on the step numbers alone: shifting the numbers from a position on,
  closing the gap a removed number leaves, and numbering afresh.
\<close>

lemma map_incr_upto: "map (\<lambda>x. x + 1) [i..j] = [i + 1..j + 1]"
  by (rule nth_equalityI) simp_all

lemma map_decr_upto: "map (\<lambda>x. x - 1) [i..j] = [i - 1..j - 1]"
  by (rule nth_equalityI) simp_all

lemma shift_upto:
  assumes "1 \<le> p" and "p \<le> n + 1"
  shows "map (\<lambda>x. if p \<le> x then x + 1 else x) [1..n] = [1..p - 1] @ [p + 1..n + 1]"
proof -
  have split: "[1..n] = [1..p - 1] @ [p..n]"
  proof (cases "p \<le> n")
    case True
    with assms show ?thesis by (simp add: upto_split1)
  next
    case False
    with assms have "p = n + 1" by simp
    then show ?thesis by simp
  qed
  have low: "map (\<lambda>x. if p \<le> x then x + 1 else x) [1..p - 1] = [1..p - 1]"
    by (rule map_idI) simp
  have high: "map (\<lambda>x. if p \<le> x then x + 1 else x) [p..n] = map (\<lambda>x. x + 1) [p..n]"
    by (rule map_cong) simp_all
  show ?thesis
    by (subst split) (simp add: low high map_incr_upto)
qed

lemma close_gap_upto:
  assumes "1 \<le> k" and "k \<le> n"
  shows "map (\<lambda>x. if k < x then x - 1 else x) (filter (\<lambda>x. x \<noteq> k) [1..n]) = [1..n - 1]"
proof -
  have split: "[1..n] = [1..k - 1] @ k # [k + 1..n]"
    using assms by (rule upto_split3)
  have f_low: "filter (\<lambda>x. x \<noteq> k) [1..k - 1] = [1..k - 1]"
    by (rule filter_True) simp
  have f_high: "filter (\<lambda>x. x \<noteq> k) [k + 1..n] = [k + 1..n]"
    by (rule filter_True) simp
  have m_low: "map (\<lambda>x. if k < x then x - 1 else x) [1..k - 1] = [1..k - 1]"
    by (rule map_idI) simp
  have m_high: "map (\<lambda>x. if k < x then x - 1 else x) [k + 1..n] = map (\<lambda>x. x - 1) [k + 1..n]"
    by (rule map_cong) simp_all
  have join: "[1..k - 1] @ [k..n - 1] = [1..n - 1]"
  proof (cases "k \<le> n - 1")
    case True
    with assms show ?thesis by (simp add: upto_split1)
  next
    case False
    with assms have "k = n" by simp
    then show ?thesis by simp
  qed
  show ?thesis
    by (subst split) (simp add: f_low f_high m_low m_high map_decr_upto join)
qed

lemma numbers_of_shifted:
  "map s_number (map (\<lambda>s. if p \<le> s_number s then s\<lparr>s_number := s_number s + 1\<rparr> else s) ss)
     = map (\<lambda>x. if p \<le> x then x + 1 else x) (map s_number ss)"
  by (induction ss) simp_all

lemma numbers_of_closed:
  "map s_number (map (\<lambda>s. if k < s_number s then s\<lparr>s_number := s_number s - 1\<rparr> else s)
       (filter (\<lambda>s. s_number s \<noteq> k) ss))
     = map (\<lambda>x. if k < x then x - 1 else x) (filter (\<lambda>x. x \<noteq> k) (map s_number ss))"
  by (induction ss) simp_all

lemma numbers_of_renumbered:
  "map s_number (renumber_from i ss) = [i..i + int (length ss) - 1]"
proof (induction ss arbitrary: i)
  case Nil
  show ?case by simp
next
  case (Cons s ss)
  have "[i..i + int (length (s # ss)) - 1] = i # [i + 1..i + 1 + int (length ss) - 1]"
    by (subst upto_rec1) (simp_all add: add.commute add.left_commute)
  with Cons show ?case by simp
qed

lemma length_renumber_from: "length (renumber_from i ss) = length ss"
  by (induction ss arbitrary: i) simp_all

lemma length_pick_steps: "pick_steps ss ks = Some picked \<Longrightarrow> length picked = length ks"
  by (induction ks arbitrary: picked) (auto split: option.splits)

text \<open>
  Each operation of the StepMutator keeps the step-numbering invariant (Reorder
  establishes it).
\<close>

lemma insert_step_numbered:
  assumes "numbered r" and "insert_step new pos now r = Inr r'"
  shows "numbered r'"
proof -
  define n where "n = int (length (r_steps r))"
  define p where "p = (case pos of None \<Rightarrow> n + 1 | Some q \<Rightarrow> q)"
  define shifted where
    "shifted = map (\<lambda>s. if p \<le> s_number s then s\<lparr>s_number := s_number s + 1\<rparr> else s) (r_steps r)"
  from assms(2) have range: "1 \<le> p" "p \<le> n + 1"
    by (cases pos; simp add: insert_step_def Let_def n_def p_def split: if_splits)+
  from assms(2) range have steps':
    "r_steps r' = take (nat (p - 1)) shifted @ new\<lparr>s_number := p\<rparr> # drop (nat (p - 1)) shifted"
    by (cases pos; auto simp: insert_step_def Let_def n_def p_def shifted_def committed_def
          split: if_splits)
  from assms(1) have nums: "map s_number (r_steps r) = [1..n]"
    by (simp add: numbered_def n_def)
  have "map s_number shifted = [1..p - 1] @ [p + 1..n + 1]"
    unfolding shifted_def numbers_of_shifted nums using range by (rule shift_upto)
  moreover have "length [1..p - 1] = nat (p - 1)" by simp
  ultimately have tk: "take (nat (p - 1)) (map s_number shifted) = [1..p - 1]"
    and dr: "drop (nat (p - 1)) (map s_number shifted) = [p + 1..n + 1]"
    by simp_all
  have "map s_number (r_steps r') = [1..p - 1] @ p # [p + 1..n + 1]"
    by (simp add: steps' take_map [symmetric] drop_map [symmetric] tk dr del: take_map drop_map)
  also have "\<dots> = [1..n + 1]"
    using range by (simp add: upto_split3 [symmetric])
  finally have "map s_number (r_steps r') = [1..n + 1]" .
  moreover have "length (r_steps r') = Suc (length (r_steps r))"
    by (simp add: steps' shifted_def)
  ultimately show ?thesis by (simp add: numbered_def n_def add.commute)
qed

lemma delete_step_numbered:
  assumes "numbered r" and "delete_step k now r = Inr r'"
  shows "numbered r'"
proof -
  define n where "n = int (length (r_steps r))"
  from assms(1) have nums: "map s_number (r_steps r) = [1..n]"
    by (simp add: numbered_def n_def)
  from assms(2) have "k \<in> set (map s_number (r_steps r))"
    by (auto simp: delete_step_def list_ex_iff split: if_splits)
  then have range: "1 \<le> k" "k \<le> n"
    by (simp_all add: nums)
  from assms(2) have steps':
    "r_steps r' = map (\<lambda>s. if k < s_number s then s\<lparr>s_number := s_number s - 1\<rparr> else s)
                    (filter (\<lambda>s. s_number s \<noteq> k) (r_steps r))"
    by (auto simp: delete_step_def committed_def split: if_splits)
  have "map s_number (r_steps r') = [1..n - 1]"
    unfolding steps' numbers_of_closed nums using range by (rule close_gap_upto)
  moreover from this have "length (r_steps r') = nat (n - 1)"
    by (metis length_map length_upto diff_add_cancel add_diff_cancel_right')
  ultimately show ?thesis
    using range by (simp add: numbered_def)
qed

lemma reorder_steps_numbered:
  assumes "reorder_steps order now r = Inr r'"
  shows "numbered r'"
proof -
  from assms obtain picked where "r_steps r' = renumber_from 1 picked"
    by (auto simp: reorder_steps_def committed_def split: if_splits option.splits)
  then show ?thesis
    by (simp add: numbered_def numbers_of_renumbered length_renumber_from)
qed

lemma apply_mutation_numbered:
  "numbered r \<Longrightarrow> apply_mutation m now r = Inr r' \<Longrightarrow> numbered r'"
  by (cases m)
     (auto intro: insert_step_numbered delete_step_numbered reorder_steps_numbered)

lemma apply_mutations_numbered:
  "numbered r \<Longrightarrow> apply_mutations ms r = Inr r' \<Longrightarrow> numbered r'"
proof (induction ms arbitrary: r)
  case Nil
  then show ?case by simp
next
  case (Cons a ms)
  obtain m now where a: "a = (m, now)" by (cases a)
  from Cons.prems(2) obtain r1 where
    first: "apply_mutation m now r = Inr r1" and rest: "apply_mutations ms r1 = Inr r'"
    by (auto simp: a split: sum.splits)
  from Cons.prems(1) first have "numbered r1" by (rule apply_mutation_numbered)
  then show ?case using rest by (rule Cons.IH)
qed

lemma numbered_distinct_range:
  assumes "numbered r"
  shows "distinct (map s_number (r_steps r))"
    and "set (map s_number (r_steps r)) = {1..int (length (r_steps r))}"
  using assms by (simp_all add: numbered_def)

text \<open>
  Claim C1: for a roadmap whose steps are numbered \<open>1, ..., n\<close>, after every sequence
  of insert, delete and reorder operations that all succeed, the step numbers of the
  resulting roadmap are exactly \<open>1, ..., n'\<close> for its \<open>n'\<close> steps, in sequence, with
  no duplicate and no gap.
\<close>

theorem step_numbers_contiguous:
  assumes "numbered r" and "apply_mutations ms r = Inr r'"
  shows "map s_number (r_steps r') = [1..int (length (r_steps r'))] \<and>
         distinct (map s_number (r_steps r')) \<and>
         set (map s_number (r_steps r')) = {1..int (length (r_steps r'))}"
proof -
  from assms have "numbered r'" by (rule apply_mutations_numbered)
  then show ?thesis
    using numbered_distinct_range [of r'] by (simp add: numbered_def)
qed

text \<open>
  Claim C1 on a roadmap of three steps: insert at position 2, delete step 3, reorder by
  \<open>[3, 1, 2]\<close>.
\<close>

theorem step_numbers_contiguous_witness:
  "numbered three_steps \<and>
   apply_mutations
       [(Insert (plain_step 0 ''x'') (Some 2), 1), (Delete 3, 2), (Reorder [3, 1, 2], 3)]
       three_steps
     = Inr ((plain_roadmap [plain_step 1 ''c'', plain_step 2 ''a'', plain_step 3 ''x''])
              \<lparr>r_updated := 3, r_version := 3\<rparr>) \<and>
   map s_number (r_steps ((plain_roadmap [plain_step 1 ''c'', plain_step 2 ''a'', plain_step 3 ''x''])
              \<lparr>r_updated := 3, r_version := 3\<rparr>)) = [1, 2, 3]"
proof -
  have start: "numbered three_steps"
    by (simp add: numbered_def three_steps_def plain_roadmap_def plain_step_def upto_rec1)
  have run: "apply_mutations
       [(Insert (plain_step 0 ''x'') (Some 2), 1), (Delete 3, 2), (Reorder [3, 1, 2], 3)]
       three_steps
     = Inr ((plain_roadmap [plain_step 1 ''c'', plain_step 2 ''a'', plain_step 3 ''x''])
              \<lparr>r_updated := 3, r_version := 3\<rparr>)"
    by (simp add: three_steps_def plain_roadmap_def plain_step_def insert_step_def
          delete_step_def reorder_steps_def valid_permutation_def committed_def Let_def)
  have nums: "map s_number
      (r_steps ((plain_roadmap [plain_step 1 ''c'', plain_step 2 ''a'', plain_step 3 ''x''])
              \<lparr>r_updated := 3, r_version := 3\<rparr>)) = [1, 2, 3]"
    using step_numbers_contiguous [OF start run]
    by (simp add: plain_roadmap_def upto_rec1)
  show ?thesis
    by (rule conjI [OF start conjI [OF run nums]])
qed

text \<open>
  The validation of Reorder accepts exactly the sequences of the roadmap's length that
  are bijections onto \<open>{1..n}\<close>.
\<close>

lemma valid_permutation_bij:
  "valid_permutation n order \<longleftrightarrow>
     length order = n \<and> bij_betw (\<lambda>i. order ! i) {..<length order} {1..int n}"
proof (cases "length order = n")
  case False
  then show ?thesis by (simp add: valid_permutation_def)
next
  case len: True
  have img: "(\<lambda>i. order ! i) ` {..<length order} = set order"
    by (auto simp: set_conv_nth)
  have inj: "inj_on (\<lambda>i. order ! i) {..<length order} \<longleftrightarrow> distinct order"
    by (auto simp: inj_on_def distinct_conv_nth)
  show ?thesis
  proof
    assume v: "valid_permutation n order"
    then have d: "distinct order" and sub: "set order \<subseteq> {1..int n}"
      by (auto simp: valid_permutation_def list_all_iff)
    from d len have "card (set order) = n" by (simp add: distinct_card)
    then have "card (set order) = card {1..int n}" by simp
    with sub have "set order = {1..int n}" by (intro card_subset_eq) simp_all
    with d len img inj
    show "length order = n \<and> bij_betw (\<lambda>i. order ! i) {..<length order} {1..int n}"
      unfolding bij_betw_def by simp
  next
    assume "length order = n \<and> bij_betw (\<lambda>i. order ! i) {..<length order} {1..int n}"
    with img inj have "distinct order" and "set order = {1..int n}"
      unfolding bij_betw_def by auto
    with len show "valid_permutation n order"
      by (simp add: valid_permutation_def list_all_iff)
  qed
qed

text \<open>
  Claim C4: a reorder whose sequence has not the length of the step count \<open>n\<close> or is
  no bijection onto \<open>{1..n}\<close> fails with \<open>InvalidPermutation\<close>, and the persisted
  roadmap is the one before the request.
\<close>

theorem reorder_rejects_invalid_permutation:
  assumes "\<not> (length order = length (r_steps r) \<and>
              bij_betw (\<lambda>i. order ! i) {..<length order} {1..int (length (r_steps r))})"
  shows "reorder_steps order now r = Inl InvalidPermutation \<and>
         persisted r (reorder_steps order now r) = r"
  using assms by (simp add: reorder_steps_def valid_permutation_bij)

text \<open>
  Claim C4 on a roadmap of three steps: a duplicate, a value out of range (with 3
  missing) and a sequence that is too short.
\<close>

theorem reorder_rejects_invalid_permutation_witness:
  "\<not> (length [3, 1, 1 :: int] = length (r_steps three_steps) \<and>
       bij_betw (\<lambda>i. [3, 1, 1 :: int] ! i) {..<length [3, 1, 1 :: int]}
         {1..int (length (r_steps three_steps))}) \<and>
   reorder_steps [3, 1, 1] 7 three_steps = Inl InvalidPermutation \<and>
   persisted three_steps (reorder_steps [3, 1, 1] 7 three_steps) = three_steps \<and>
   reorder_steps [1, 2, 4] 7 three_steps = Inl InvalidPermutation \<and>
   reorder_steps [2, 1] 7 three_steps = Inl InvalidPermutation"
proof -
  have len: "length (r_steps three_steps) = 3"
    by (simp add: three_steps_def plain_roadmap_def)
  have dup: "\<not> (length [3, 1, 1 :: int] = length (r_steps three_steps) \<and>
       bij_betw (\<lambda>i. [3, 1, 1 :: int] ! i) {..<length [3, 1, 1 :: int]}
         {1..int (length (r_steps three_steps))})"
    using valid_permutation_bij [of 3 "[3, 1, 1]"]
    by (simp add: len valid_permutation_def)
  have range: "\<not> (length [1, 2, 4 :: int] = length (r_steps three_steps) \<and>
       bij_betw (\<lambda>i. [1, 2, 4 :: int] ! i) {..<length [1, 2, 4 :: int]}
         {1..int (length (r_steps three_steps))})"
    using valid_permutation_bij [of 3 "[1, 2, 4]"]
    by (simp add: len valid_permutation_def)
  have short: "\<not> (length [2, 1 :: int] = length (r_steps three_steps) \<and>
       bij_betw (\<lambda>i. [2, 1 :: int] ! i) {..<length [2, 1 :: int]}
         {1..int (length (r_steps three_steps))})"
    by (simp add: len)
  from reorder_rejects_invalid_permutation [OF dup, of 7]
    reorder_rejects_invalid_permutation [OF range, of 7]
    reorder_rejects_invalid_permutation [OF short, of 7] dup
  show ?thesis by simp
qed


section \<open>Properties of the BrainTypeClassifier\<close>

lemma floor_rat_numeral: "\<lfloor>(numeral a :: rat) / numeral b\<rfloor> = numeral a div numeral b"
  using floor_divide_of_int_eq [of "numeral a" "numeral b", where ?'a = rat] by simp

text \<open>
  With a positive total, comparing shares is comparing accumulated weights; the winner
  is then given by three comparisons, made in the canonical order.
\<close>

lemma share_less_iff:
  "0 < total_weight sc \<Longrightarrow> share sc a < share sc b \<longleftrightarrow> weight sc a < weight sc b"
  by (simp add: share_def divide_less_cancel)

lemma better_by_weight:
  "0 < total_weight sc \<Longrightarrow> better sc best s = (if weight sc best < weight sc s then s else best)"
  by (simp add: better_def share_less_iff)

lemma rank_simps:
  "rank Visual = 0" "rank Auditory = 1" "rank ReadWrite = 2" "rank Kinesthetic = 3"
  by (simp_all add: rank_def canonical_order_def)

lemma winner_cases:
  assumes "0 < total_weight sc"
  shows "winner sc =
     (let b1 = (if visual sc < auditory sc then Auditory else Visual);
          b2 = (if weight sc b1 < read_write sc then ReadWrite else b1)
      in if weight sc b2 < kinesthetic sc then Kinesthetic else b2)"
  by (simp add: winner_def better_by_weight [OF assms] Let_def)

lemma winner_maximal:
  assumes "0 < total_weight sc"
  shows "weight sc s \<le> weight sc (winner sc)"
  unfolding winner_cases [OF assms] Let_def
  by (cases s; cases "visual sc < auditory sc"; cases "visual sc < read_write sc";
      cases "auditory sc < read_write sc"; simp)

lemma winner_first_of_tied:
  assumes "0 < total_weight sc" and "weight sc s = weight sc (winner sc)"
  shows "rank (winner sc) \<le> rank s"
  using assms(2) unfolding winner_cases [OF assms(1)] Let_def
  by (cases s; cases "visual sc < auditory sc"; cases "visual sc < read_write sc";
      cases "auditory sc < read_write sc"; cases "visual sc < kinesthetic sc";
      cases "auditory sc < kinesthetic sc"; cases "read_write sc < kinesthetic sc";
      simp add: rank_simps)

text \<open>
  Claim C6: whenever the classifier returns a result, the winning style has the maximum
  accumulated weight, and every style tied with it for the maximum comes no earlier in
  the canonical ordering (Visual, Auditory, ReadWrite, Kinesthetic). The result is a
  function of the questions and the answers.
\<close>

theorem tie_break_canonical:
  assumes "classify qs answers = Inr res"
  shows "\<exists>sc. accumulate qs answers zero_score = Inr sc \<and>
           (\<forall>s. weight sc s \<le> weight sc (winning_style res)) \<and>
           (\<forall>s. weight sc s = weight sc (winning_style res) \<longrightarrow>
                  rank (winning_style res) \<le> rank s)"
proof -
  from assms obtain sc where acc: "accumulate qs answers zero_score = Inr sc"
    and pos: "0 < total_weight sc" and win: "winning_style res = winner sc"
    by (auto simp: classify_def split: if_splits sum.splits)
  from pos have "\<forall>s. weight sc s \<le> weight sc (winner sc)"
    by (simp add: winner_maximal)
  moreover from pos have "\<forall>s. weight sc s = weight sc (winner sc) \<longrightarrow> rank (winner sc) \<le> rank s"
    by (simp add: winner_first_of_tied)
  ultimately show ?thesis using acc win by simp
qed

text \<open>
  Claim C6 on two answers that give Auditory and Kinesthetic the same weight: the
  winner is Auditory, the earlier of the two.
\<close>

theorem tie_break_canonical_witness:
  "classify two_questions tied_answers
     = Inr \<lparr>winning_style = Auditory, confidence_score = 50,
            distribution = [(Visual, 0), (Auditory, 1 / 2), (ReadWrite, 0), (Kinesthetic, 1 / 2)]\<rparr> \<and>
   accumulate two_questions tied_answers zero_score
     = Inr \<lparr>visual = 0, auditory = 1, read_write = 0, kinesthetic = 1\<rparr> \<and>
   rank Auditory < rank Kinesthetic"
proof -
  have acc: "accumulate two_questions tied_answers zero_score
     = Inr \<lparr>visual = 0, auditory = 1, read_write = 0, kinesthetic = 1\<rparr>"
    by (simp add: two_questions_def tied_answers_def chosen_weights_def pure_weights_def
          zero_score_def add_score_def)
  have run: "classify two_questions tied_answers
     = Inr \<lparr>winning_style = Auditory, confidence_score = 50,
            distribution = [(Visual, 0), (Auditory, 1 / 2), (ReadWrite, 0), (Kinesthetic, 1 / 2)]\<rparr>"
    unfolding classify_def acc
    by (simp add: covered_once_def two_questions_def tied_answers_def total_weight_def
          winner_def better_def share_def round1_def canonical_order_def
          floor_rat_numeral)
  from tie_break_canonical [OF run] have "rank Auditory \<le> rank Kinesthetic"
    by (simp add: acc)
  then have "rank Auditory < rank Kinesthetic"
    by (simp add: rank_simps)
  with run acc show ?thesis by (intro conjI)
qed

section \<open>Properties of the RoadmapSynthesizer\<close>

text \<open>
  Claim C8: every roadmap synthesized at beginner intensity has 30 minutes per day over
  8 weeks, at intermediate 60 over 6, at advanced 90 over 4.
\<close>

theorem intensity_budget:
  assumes "synthesize describe min_steps catalog rid user now st tp level = Inr r"
  shows "(r_daily_minutes r, r_weeks r) =
           (case level of
              Beginner \<Rightarrow> (30, 8)
            | Intermediate \<Rightarrow> (60, 6)
            | Advanced \<Rightarrow> (90, 4))"
  using assms
  by (cases level) (auto simp: synthesize_def Let_def split: if_splits)

text \<open>
  The labels of the intensity select on the Quiz page state the same budgets.
\<close>

lemma quiz_labels_state_budget:
  "map snd intensity_items = map budget_label [Beginner, Intermediate, Advanced]"
  by (simp add: intensity_items_def budget_label_def)

text \<open>
  Claim C8 on a catalog with three resources of the topic, at each of the levels.
\<close>

theorem intensity_budget_witness:
  "map_sum id (\<lambda>r. (r_daily_minutes r, r_weeks r))
     (synthesize by_id 3 small_catalog ''r9'' ''u1'' 100 Visual ''Programming'' Beginner)
     = Inr (30, 8) \<and>
   map_sum id (\<lambda>r. (r_daily_minutes r, r_weeks r))
     (synthesize by_id 3 small_catalog ''r9'' ''u1'' 100 Visual ''Programming'' Intermediate)
     = Inr (60, 6) \<and>
   map_sum id (\<lambda>r. (r_daily_minutes r, r_weeks r))
     (synthesize by_id 3 small_catalog ''r9'' ''u1'' 100 Visual ''Programming'' Advanced)
     = Inr (90, 4)"
proof -
  obtain b where
    b: "synthesize by_id 3 small_catalog ''r9'' ''u1'' 100 Visual ''Programming'' Beginner = Inr b"
    by (simp add: synthesize_def Let_def small_catalog_def ranked_def style_matched_def)
  obtain i where
    i: "synthesize by_id 3 small_catalog ''r9'' ''u1'' 100 Visual ''Programming'' Intermediate = Inr i"
    by (simp add: synthesize_def Let_def small_catalog_def ranked_def style_matched_def)
  obtain a where
    a: "synthesize by_id 3 small_catalog ''r9'' ''u1'' 100 Visual ''Programming'' Advanced = Inr a"
    by (simp add: synthesize_def Let_def small_catalog_def ranked_def style_matched_def)
  from intensity_budget [OF b] intensity_budget [OF i] intensity_budget [OF a]
  show ?thesis by (simp add: b i a)
qed

end
